theory Spec2Isabelle
  imports Main "HOL-Library.Word"
begin

unbundle bit_operations_syntax

section \<open>Machine types\<close>

text \<open>
  The driver is C code for a 32-bit Linux kernel. \<open>u8\<close>, \<open>u16\<close> and \<open>u32\<close> are words of
  that width. A C \<open>int\<close> that takes part in arithmetic (\<open>power_count\<close>, the control value,
  the operands of \<open>abs\<close>) is a 32-bit word read in two's complement: the kernel is built
  with wrapping signed arithmetic, so \<open>+\<close> and \<open>-\<close> on it are the word operations and
  comparisons go through \<open>sint\<close>. Return codes are never added or subtracted; they are
  plain integers, negative for an error.
\<close>

type_synonym u8 = "8 word"
type_synonym u16 = "16 word"
type_synonym u32 = "32 word"
type_synonym s32 = "32 word"

section \<open>Register addresses and bit masks\<close>

definition BIT :: "nat \<Rightarrow> u8" where
  "BIT n = push_bit n 1"

definition MIPI_CTRL00_CLOCK_LANE_GATE :: u8 where
  "MIPI_CTRL00_CLOCK_LANE_GATE = BIT 5"

definition MIPI_CTRL00_LINE_SYNC_ENABLE :: u8 where
  "MIPI_CTRL00_LINE_SYNC_ENABLE = BIT 4"

definition MIPI_CTRL00_BUS_IDLE :: u8 where
  "MIPI_CTRL00_BUS_IDLE = BIT 2"

definition MIPI_CTRL00_CLOCK_LANE_DISABLE :: u8 where
  "MIPI_CTRL00_CLOCK_LANE_DISABLE = BIT 0"

definition OV5647_SW_STANDBY :: u16 where
  "OV5647_SW_STANDBY = 0x0100"

definition OV5647_SW_RESET :: u16 where
  "OV5647_SW_RESET = 0x0103"

definition OV5647_REG_CHIPID_H :: u16 where
  "OV5647_REG_CHIPID_H = 0x300A"

definition OV5647_REG_CHIPID_L :: u16 where
  "OV5647_REG_CHIPID_L = 0x300B"

definition OV5640_REG_PAD_OUT :: u16 where
  "OV5640_REG_PAD_OUT = 0x300D"

definition OV5647_REG_FRAME_OFF_NUMBER :: u16 where
  "OV5647_REG_FRAME_OFF_NUMBER = 0x4202"

definition OV5647_REG_MIPI_CTRL00 :: u16 where
  "OV5647_REG_MIPI_CTRL00 = 0x4800"

definition OV5647_REG_MIPI_CTRL14 :: u16 where
  "OV5647_REG_MIPI_CTRL14 = 0x4814"

definition OV5647_REG_AEC_AGC :: u16 where
  "OV5647_REG_AEC_AGC = 0x3503"

definition OV5647_AEC_ENABLE :: u8 where
  "OV5647_AEC_ENABLE = BIT 0"

definition OV5647_AGC_ENABLE :: u8 where
  "OV5647_AGC_ENABLE = BIT 1"

definition OV5647_REG_EXPOSURE_HI :: u16 where
  "OV5647_REG_EXPOSURE_HI = 0x3500"

definition OV5647_REG_EXPOSURE_MID :: u16 where
  "OV5647_REG_EXPOSURE_MID = 0x3501"

definition OV5647_REG_EXPOSURE_LO :: u16 where
  "OV5647_REG_EXPOSURE_LO = 0x3502"

definition OV5647_REG_GAIN_HI :: u16 where
  "OV5647_REG_GAIN_HI = 0x350a"

definition OV5647_REG_GAIN_LO :: u16 where
  "OV5647_REG_GAIN_LO = 0x350b"

definition OV5647_REG_AWB :: u16 where
  "OV5647_REG_AWB = 0x5001"

subsection \<open>Constants of the kernel headers\<close>

text \<open>
  Modelled from the spec: the media-bus format codes, the TRY/ACTIVE selector, the field
  and colourspace tags, the exposure menu values and the error numbers are declared in
  kernel headers that are not among the sources of the driver. The spec names the two
  pixel formats BAYER8 and BAYER10 and the identity failure NotFoundError; the numbers
  below are those of the kernel's headers. The theorems use only that the two format
  codes differ and that error numbers are positive.
\<close>

definition MEDIA_BUS_FMT_SBGGR8_1X8 :: u32 where
  "MEDIA_BUS_FMT_SBGGR8_1X8 = 0x3001"

definition MEDIA_BUS_FMT_SBGGR10_1X10 :: u32 where
  "MEDIA_BUS_FMT_SBGGR10_1X10 = 0x3007"

definition V4L2_SUBDEV_FORMAT_TRY :: u32 where
  "V4L2_SUBDEV_FORMAT_TRY = 0"

definition V4L2_SUBDEV_FORMAT_ACTIVE :: u32 where
  "V4L2_SUBDEV_FORMAT_ACTIVE = 1"

definition V4L2_FIELD_NONE :: u32 where
  "V4L2_FIELD_NONE = 1"

definition V4L2_COLORSPACE_SRGB :: u32 where
  "V4L2_COLORSPACE_SRGB = 8"

definition V4L2_EXPOSURE_AUTO :: s32 where
  "V4L2_EXPOSURE_AUTO = 0"

definition V4L2_EXPOSURE_MANUAL :: s32 where
  "V4L2_EXPOSURE_MANUAL = 1"

definition ENOMEM :: int where
  "ENOMEM = 12"

definition ENODEV :: int where
  "ENODEV = 19"

definition EINVAL :: int where
  "EINVAL = 22"

section \<open>Register sequences\<close>

datatype regval_list = RV (addr: u16) (data: u8)

definition sensor_oe_disable_regs :: "regval_list list" where
  "sensor_oe_disable_regs = [
    RV 0x3000 0x00, RV 0x3001 0x00, RV 0x3002 0x00]"

definition sensor_oe_enable_regs :: "regval_list list" where
  "sensor_oe_enable_regs = [
    RV 0x3000 0x0f, RV 0x3001 0xff, RV 0x3002 0xe4]"

definition ov5647_640x480 :: "regval_list list" where
  "ov5647_640x480 = [
    RV 0x0100 0x00, RV 0x0103 0x01, RV 0x3034 0x08, RV 0x3035 0x21, RV 0x3036 0x46,
    RV 0x303c 0x11, RV 0x3106 0xf5, RV 0x3821 0x07, RV 0x3820 0x41, RV 0x3827 0xec,
    RV 0x370c 0x0f, RV 0x3612 0x59, RV 0x3618 0x00, RV 0x5000 0x06, RV 0x5001 0x01,
    RV 0x5002 0x41, RV 0x5003 0x00, RV 0x503d 0x00, RV 0x5a00 0x08, RV 0x3503 0x00,
    RV 0x3500 0x00, RV 0x3501 0x40, RV 0x3502 0x00, RV 0x350a 0x00, RV 0x350b 0x40,
    RV 0x3000 0x00, RV 0x3001 0x00, RV 0x3002 0x00, RV 0x3016 0x08, RV 0x3017 0xe0,
    RV 0x3018 0x44, RV 0x301c 0xf8, RV 0x301d 0xf0, RV 0x3a18 0x00, RV 0x3a19 0xf8,
    RV 0x3c01 0x80, RV 0x3b07 0x0c, RV 0x380c 0x07, RV 0x380d 0x68, RV 0x380e 0x03,
    RV 0x380f 0xd8, RV 0x3814 0x71, RV 0x3815 0x71, RV 0x3708 0x64, RV 0x3709 0x52,
    RV 0x3808 0x02, RV 0x3809 0x80, RV 0x380a 0x01, RV 0x380b 0xe0, RV 0x3800 0x00,
    RV 0x3801 0x00, RV 0x3802 0x00, RV 0x3803 0x00, RV 0x3804 0x0a, RV 0x3805 0x3f,
    RV 0x3806 0x07, RV 0x3807 0xa1, RV 0x3811 0x08, RV 0x3813 0x02, RV 0x3630 0x2e,
    RV 0x3632 0xe2, RV 0x3633 0x23, RV 0x3634 0x44, RV 0x3636 0x06, RV 0x3620 0x64,
    RV 0x3621 0xe0, RV 0x3600 0x37, RV 0x3704 0xa0, RV 0x3703 0x5a, RV 0x3715 0x78,
    RV 0x3717 0x01, RV 0x3731 0x02, RV 0x370b 0x60, RV 0x3705 0x1a, RV 0x3f05 0x02,
    RV 0x3f06 0x10, RV 0x3f01 0x0a, RV 0x3a08 0x01, RV 0x3a09 0x27, RV 0x3a0a 0x00,
    RV 0x3a0b 0xf6, RV 0x3a0d 0x04, RV 0x3a0e 0x03, RV 0x3a0f 0x58, RV 0x3a10 0x50,
    RV 0x3a1b 0x58, RV 0x3a1e 0x50, RV 0x3a11 0x60, RV 0x3a1f 0x28, RV 0x4001 0x02,
    RV 0x4004 0x02, RV 0x4000 0x09, RV 0x4837 0x24, RV 0x4050 0x6e, RV 0x4051 0x8f,
    RV 0x4800 0x34, RV 0x0100 0x01]"

definition ov5647_2592x1944 :: "regval_list list" where
  "ov5647_2592x1944 = [
    RV 0x0100 0x00, RV 0x0103 0x01, RV 0x3034 0x08, RV 0x3035 0x21, RV 0x3036 0x69,
    RV 0x303c 0x11, RV 0x3106 0xf5, RV 0x3821 0x06, RV 0x3820 0x00, RV 0x3827 0xec,
    RV 0x370c 0x03, RV 0x3612 0x5b, RV 0x3618 0x04, RV 0x5000 0x06, RV 0x5001 0x01,
    RV 0x5002 0x41, RV 0x5003 0x00, RV 0x503d 0x00, RV 0x5a00 0x08, RV 0x3503 0x00,
    RV 0x3500 0x00, RV 0x3501 0x40, RV 0x3502 0x00, RV 0x350a 0x00, RV 0x350b 0x40,
    RV 0x3000 0x00, RV 0x3001 0x00, RV 0x3002 0x00, RV 0x3016 0x08, RV 0x3017 0xe0,
    RV 0x3018 0x44, RV 0x301c 0xf8, RV 0x301d 0xf0, RV 0x3a18 0x00, RV 0x3a19 0xf8,
    RV 0x3c01 0x80, RV 0x3b07 0x0c, RV 0x380c 0x0b, RV 0x380d 0x1c, RV 0x380e 0x07,
    RV 0x380f 0xb0, RV 0x3814 0x11, RV 0x3815 0x11, RV 0x3708 0x64, RV 0x3709 0x12,
    RV 0x3808 0x0a, RV 0x3809 0x20, RV 0x380a 0x07, RV 0x380b 0x98, RV 0x3800 0x00,
    RV 0x3801 0x00, RV 0x3802 0x00, RV 0x3803 0x00, RV 0x3804 0x0a, RV 0x3805 0x3f,
    RV 0x3806 0x07, RV 0x3807 0xa3, RV 0x3810 0x00, RV 0x3811 0x10, RV 0x3812 0x00,
    RV 0x3813 0x06, RV 0x3630 0x2e, RV 0x3632 0xe2, RV 0x3633 0x23, RV 0x3634 0x44,
    RV 0x3636 0x06, RV 0x3620 0x64, RV 0x3621 0xe0, RV 0x3600 0x37, RV 0x3704 0xa0,
    RV 0x3703 0x5a, RV 0x3715 0x78, RV 0x3717 0x01, RV 0x3731 0x02, RV 0x370b 0x60,
    RV 0x3705 0x1a, RV 0x3f05 0x02, RV 0x3f06 0x10, RV 0x3f01 0x0a, RV 0x3a08 0x01,
    RV 0x3a09 0x28, RV 0x3a0a 0x00, RV 0x3a0b 0xf6, RV 0x3a0d 0x08, RV 0x3a0e 0x06,
    RV 0x3a0f 0x58, RV 0x3a10 0x50, RV 0x3a1b 0x58, RV 0x3a1e 0x50, RV 0x3a11 0x60,
    RV 0x3a1f 0x28, RV 0x4001 0x02, RV 0x4004 0x04, RV 0x4000 0x09, RV 0x4837 0x19,
    RV 0x4800 0x34, RV 0x0100 0x01]"

definition ov5647_1280x960 :: "regval_list list" where
  "ov5647_1280x960 = [
    RV 0x0100 0x00, RV 0x0103 0x01, RV 0x3034 0x08, RV 0x3035 0x21, RV 0x3036 0x46,
    RV 0x303c 0x11, RV 0x3106 0xf5, RV 0x3821 0x06, RV 0x3820 0x00, RV 0x3827 0xec,
    RV 0x370c 0x0f, RV 0x3612 0x59, RV 0x3618 0x00, RV 0x5000 0x06, RV 0x5001 0x01,
    RV 0x5002 0x41, RV 0x5003 0x00, RV 0x503d 0x00, RV 0x5a00 0x08, RV 0x3503 0x00,
    RV 0x3500 0x00, RV 0x3501 0x40, RV 0x3502 0x00, RV 0x350a 0x00, RV 0x350b 0x40,
    RV 0x3000 0x00, RV 0x3001 0x00, RV 0x3002 0x00, RV 0x3016 0x08, RV 0x3017 0xe0,
    RV 0x3018 0x44, RV 0x301c 0xf8, RV 0x301d 0xf0, RV 0x3a18 0x00, RV 0x3a19 0xf8,
    RV 0x3c01 0x80, RV 0x3b07 0x0c, RV 0x380c 0x07, RV 0x380d 0x68, RV 0x380e 0x03,
    RV 0x380f 0xd8, RV 0x3814 0x31, RV 0x3815 0x31, RV 0x3708 0x64, RV 0x3709 0x52,
    RV 0x3808 0x05, RV 0x3809 0x00, RV 0x380a 0x03, RV 0x380b 0xc0, RV 0x3800 0x00,
    RV 0x3801 0x08, RV 0x3802 0x00, RV 0x3803 0x02, RV 0x3804 0x0a, RV 0x3805 0x37,
    RV 0x3806 0x07, RV 0x3807 0x9f, RV 0x3811 0x04, RV 0x3813 0x02, RV 0x3630 0x2e,
    RV 0x3632 0xe2, RV 0x3633 0x23, RV 0x3634 0x44, RV 0x3636 0x06, RV 0x3620 0x64,
    RV 0x3621 0xe0, RV 0x3600 0x37, RV 0x3704 0xa0, RV 0x3703 0x5a, RV 0x3715 0x78,
    RV 0x3717 0x01, RV 0x3731 0x02, RV 0x370b 0x60, RV 0x3705 0x1a, RV 0x3f05 0x02,
    RV 0x3f06 0x10, RV 0x3f01 0x0a, RV 0x3a08 0x01, RV 0x3a09 0x28, RV 0x3a0a 0x00,
    RV 0x3a0b 0xf6, RV 0x3a0d 0x08, RV 0x3a0e 0x06, RV 0x3a0f 0x58, RV 0x3a10 0x50,
    RV 0x3a1b 0x58, RV 0x3a1e 0x50, RV 0x3a11 0x60, RV 0x3a1f 0x28, RV 0x4001 0x02,
    RV 0x4004 0x04, RV 0x4000 0x09, RV 0x4837 0x16, RV 0x4800 0x34, RV 0x0100 0x01]"

definition ov5647_1920x1080 :: "regval_list list" where
  "ov5647_1920x1080 = [
    RV 0x0100 0x00, RV 0x0103 0x01, RV 0x3034 0x1a, RV 0x3035 0x21, RV 0x3036 0x62,
    RV 0x303c 0x11, RV 0x3106 0xf5, RV 0x3821 0x06, RV 0x3820 0x00, RV 0x3827 0xec,
    RV 0x370c 0x03, RV 0x3612 0x5b, RV 0x3618 0x04, RV 0x5000 0x06, RV 0x5002 0x41,
    RV 0x5003 0x08, RV 0x5a00 0x08, RV 0x3000 0x00, RV 0x3001 0x00, RV 0x3002 0x00,
    RV 0x3016 0x08, RV 0x3017 0xe0, RV 0x3018 0x44, RV 0x301c 0xf8, RV 0x301d 0xf0,
    RV 0x3a18 0x00, RV 0x3a19 0xf8, RV 0x3c01 0x80, RV 0x3b07 0x0c, RV 0x380c 0x09,
    RV 0x380d 0x70, RV 0x380e 0x04, RV 0x380f 0x50, RV 0x3814 0x11, RV 0x3815 0x11,
    RV 0x3708 0x64, RV 0x3709 0x12, RV 0x3808 0x07, RV 0x3809 0x80, RV 0x380a 0x04,
    RV 0x380b 0x38, RV 0x3800 0x01, RV 0x3801 0x5c, RV 0x3802 0x01, RV 0x3803 0xb2,
    RV 0x3804 0x08, RV 0x3805 0xe3, RV 0x3806 0x05, RV 0x3807 0xf1, RV 0x3811 0x04,
    RV 0x3813 0x02, RV 0x3630 0x2e, RV 0x3632 0xe2, RV 0x3633 0x23, RV 0x3634 0x44,
    RV 0x3636 0x06, RV 0x3620 0x64, RV 0x3621 0xe0, RV 0x3600 0x37, RV 0x3704 0xa0,
    RV 0x3703 0x5a, RV 0x3715 0x78, RV 0x3717 0x01, RV 0x3731 0x02, RV 0x370b 0x60,
    RV 0x3705 0x1a, RV 0x3f05 0x02, RV 0x3f06 0x10, RV 0x3f01 0x0a, RV 0x3a08 0x01,
    RV 0x3a09 0x4b, RV 0x3a0a 0x01, RV 0x3a0b 0x13, RV 0x3a0d 0x04, RV 0x3a0e 0x03,
    RV 0x3a0f 0x58, RV 0x3a10 0x50, RV 0x3a1b 0x58, RV 0x3a1e 0x50, RV 0x3a11 0x60,
    RV 0x3a1f 0x28, RV 0x4001 0x02, RV 0x4004 0x04, RV 0x4000 0x09, RV 0x4837 0x19,
    RV 0x4800 0x34, RV 0x3503 0x00, RV 0x0100 0x01]"

definition ov5647_1296x972 :: "regval_list list" where
  "ov5647_1296x972 = [
    RV 0x0100 0x00, RV 0x0103 0x01, RV 0x3034 0x08, RV 0x3035 0x21, RV 0x3036 0x46,
    RV 0x303c 0x11, RV 0x3106 0xf5, RV 0x3821 0x07, RV 0x3820 0x41, RV 0x3827 0xec,
    RV 0x370c 0x0f, RV 0x3612 0x59, RV 0x3618 0x00, RV 0x5000 0x06, RV 0x5001 0x01,
    RV 0x5002 0x41, RV 0x5003 0x00, RV 0x503d 0x00, RV 0x5a00 0x08, RV 0x3503 0x00,
    RV 0x3500 0x00, RV 0x3501 0x40, RV 0x3502 0x00, RV 0x350a 0x00, RV 0x350b 0x40,
    RV 0x3000 0x00, RV 0x3001 0x00, RV 0x3002 0x00, RV 0x3016 0x08, RV 0x3017 0xe0,
    RV 0x3018 0x44, RV 0x301c 0xf8, RV 0x301d 0xf0, RV 0x3a18 0x00, RV 0x3a19 0xf8,
    RV 0x3c01 0x80, RV 0x3b07 0x0c, RV 0x380c 0x07, RV 0x380d 0x68, RV 0x380e 0x05,
    RV 0x380f 0x9b, RV 0x3814 0x31, RV 0x3815 0x31, RV 0x3708 0x64, RV 0x3709 0x52,
    RV 0x3808 0x05, RV 0x3809 0x10, RV 0x380a 0x03, RV 0x380b 0xcc, RV 0x3800 0x00,
    RV 0x3801 0x00, RV 0x3802 0x00, RV 0x3803 0x00, RV 0x3804 0x0a, RV 0x3805 0x3f,
    RV 0x3806 0x07, RV 0x3807 0xa3, RV 0x3810 0x00, RV 0x3811 0x08, RV 0x3812 0x00,
    RV 0x3813 0x02, RV 0x3630 0x2e, RV 0x3632 0xe2, RV 0x3633 0x23, RV 0x3634 0x44,
    RV 0x3636 0x06, RV 0x3620 0x64, RV 0x3621 0xe0, RV 0x3600 0x37, RV 0x3704 0xa0,
    RV 0x3703 0x5a, RV 0x3715 0x78, RV 0x3717 0x01, RV 0x3731 0x02, RV 0x370b 0x60,
    RV 0x3705 0x1a, RV 0x3f05 0x02, RV 0x3f06 0x10, RV 0x3f01 0x0a, RV 0x3a08 0x01,
    RV 0x3a09 0x28, RV 0x3a0a 0x00, RV 0x3a0b 0xf6, RV 0x3a0d 0x08, RV 0x3a0e 0x06,
    RV 0x3a0f 0x58, RV 0x3a10 0x50, RV 0x3a1b 0x58, RV 0x3a1e 0x50, RV 0x3a11 0x60,
    RV 0x3a1f 0x28, RV 0x4001 0x02, RV 0x4004 0x04, RV 0x4000 0x09, RV 0x4837 0x16,
    RV 0x4800 0x34, RV 0x0100 0x01]"

definition ov5647_640x480_binned :: "regval_list list" where
  "ov5647_640x480_binned = [
    RV 0x0100 0x00, RV 0x0103 0x01, RV 0x3034 0x08, RV 0x3035 0x21, RV 0x3036 0x46,
    RV 0x303c 0x11, RV 0x3106 0xf5, RV 0x3821 0x07, RV 0x3820 0x41, RV 0x3827 0xec,
    RV 0x370c 0x0f, RV 0x3612 0x59, RV 0x3618 0x00, RV 0x5000 0x06, RV 0x5001 0x01,
    RV 0x5002 0x41, RV 0x5003 0x00, RV 0x503d 0x00, RV 0x5a00 0x08, RV 0x3503 0x00,
    RV 0x3500 0x00, RV 0x3501 0x40, RV 0x3502 0x00, RV 0x350a 0x00, RV 0x350b 0x40,
    RV 0x3000 0x00, RV 0x3001 0x00, RV 0x3002 0x00, RV 0x3016 0x08, RV 0x3017 0xe0,
    RV 0x3018 0x44, RV 0x301c 0xf8, RV 0x301d 0xf0, RV 0x3a18 0x00, RV 0x3a19 0xf8,
    RV 0x3c01 0x80, RV 0x3b07 0x0c, RV 0x380c 0x07, RV 0x380d 0x3c, RV 0x380e 0x01,
    RV 0x380f 0xf8, RV 0x3814 0x35, RV 0x3815 0x35, RV 0x3708 0x64, RV 0x3709 0x52,
    RV 0x3808 0x02, RV 0x3809 0x80, RV 0x380a 0x01, RV 0x380b 0xe0, RV 0x3800 0x00,
    RV 0x3801 0x10, RV 0x3802 0x00, RV 0x3803 0x00, RV 0x3804 0x0a, RV 0x3805 0x2f,
    RV 0x3806 0x07, RV 0x3807 0x9f, RV 0x3810 0x00, RV 0x3811 0x10, RV 0x3812 0x00,
    RV 0x3813 0x04, RV 0x3630 0x2e, RV 0x3632 0xe2, RV 0x3633 0x23, RV 0x3634 0x44,
    RV 0x3636 0x06, RV 0x3620 0x64, RV 0x3621 0xe0, RV 0x3600 0x37, RV 0x3704 0xa0,
    RV 0x3703 0x5a, RV 0x3715 0x78, RV 0x3717 0x01, RV 0x3731 0x02, RV 0x370b 0x60,
    RV 0x3705 0x1a, RV 0x3f05 0x02, RV 0x3f06 0x10, RV 0x3f01 0x0a, RV 0x3a08 0x01,
    RV 0x3a09 0x28, RV 0x3a0a 0x00, RV 0x3a0b 0xf6, RV 0x3a0d 0x08, RV 0x3a0e 0x06,
    RV 0x3a0f 0x58, RV 0x3a10 0x50, RV 0x3a1b 0x58, RV 0x3a1e 0x50, RV 0x3a11 0x60,
    RV 0x3a1f 0x28, RV 0x4001 0x02, RV 0x4004 0x02, RV 0x4000 0x09, RV 0x4837 0x24,
    RV 0x4800 0x34, RV 0x0100 0x01]"

section \<open>The mode table\<close>

record ov5647_mode =
  width :: u32
  height :: u32
  mbus_code :: u32
  pixel_rate :: u32
  reg_list :: "regval_list list"
  num_regs :: nat

definition ov5647_modes :: "ov5647_mode list" where
  "ov5647_modes = [
    \<lparr>width = 640, height = 480, mbus_code = MEDIA_BUS_FMT_SBGGR8_1X8,
      pixel_rate = 55000000, reg_list = ov5647_640x480,
      num_regs = length ov5647_640x480\<rparr>,
    \<lparr>width = 640, height = 480, mbus_code = MEDIA_BUS_FMT_SBGGR8_1X8,
      pixel_rate = 55000000, reg_list = ov5647_640x480_binned,
      num_regs = length ov5647_640x480_binned\<rparr>,
    \<lparr>width = 1296, height = 972, mbus_code = MEDIA_BUS_FMT_SBGGR8_1X8,
      pixel_rate = 81666700, reg_list = ov5647_1296x972,
      num_regs = length ov5647_1296x972\<rparr>,
    \<lparr>width = 1280, height = 960, mbus_code = MEDIA_BUS_FMT_SBGGR8_1X8,
      pixel_rate = 55969920, reg_list = ov5647_1280x960,
      num_regs = length ov5647_1280x960\<rparr>,
    \<lparr>width = 1920, height = 1080, mbus_code = MEDIA_BUS_FMT_SBGGR10_1X10,
      pixel_rate = 81666700, reg_list = ov5647_1920x1080,
      num_regs = length ov5647_1920x1080\<rparr>,
    \<lparr>width = 2592, height = 1944, mbus_code = MEDIA_BUS_FMT_SBGGR8_1X8,
      pixel_rate = 87500000, reg_list = ov5647_2592x1944,
      num_regs = length ov5647_2592x1944\<rparr>]"

definition OV5647_NUM_MODES :: nat where
  "OV5647_NUM_MODES = length ov5647_modes"

section \<open>Format negotiation\<close>

record v4l2_mbus_framefmt =
  mf_width :: u32
  mf_height :: u32
  mf_code :: u32
  mf_field :: u32
  mf_colorspace :: u32

record v4l2_subdev_format =
  which :: u32
  pad :: u32
  format :: v4l2_mbus_framefmt

text \<open>
  The kernel's \<open>abs\<close> on an \<open>int\<close>: \<open>x < 0 ? -x : x\<close>, on the two's complement
  reading. The casts \<open>(int)\<close> of the \<open>u32\<close> fields keep the bits.
\<close>

definition abs_s32 :: "s32 \<Rightarrow> s32" where
  "abs_s32 x = (if x <s 0 then - x else x)"

text \<open>The body of the loop of \<open>ov5647_set_fmt\<close> up to the comparison: the cost of one mode.\<close>

definition mode_diff :: "ov5647_mode \<Rightarrow> v4l2_mbus_framefmt \<Rightarrow> u32" where
  "mode_diff m f =
     (let diff = abs_s32 (width m - mf_width f) + abs_s32 (height m - mf_height f)
      in if mbus_code m \<noteq> mf_code f then diff + 10000 else diff)"

text \<open>
  The loop \<open>for (i = 0; i < OV5647_NUM_MODES; i++)\<close>: the first argument is the part of
  the table from index \<open>i\<close> on, the pair is \<open>(best_mode, best_diff)\<close>.
\<close>

fun best_mode_loop ::
  "ov5647_mode list \<Rightarrow> nat \<Rightarrow> v4l2_mbus_framefmt \<Rightarrow> nat \<times> u32 \<Rightarrow> nat \<times> u32" where
  "best_mode_loop [] i f (best_mode, best_diff) = (best_mode, best_diff)"
| "best_mode_loop (m # ms) i f (best_mode, best_diff) =
     (let diff = mode_diff m f
      in best_mode_loop ms (i + 1) f
           (if diff < best_diff then (i, diff) else (best_mode, best_diff)))"

definition find_best_mode :: "v4l2_mbus_framefmt \<Rightarrow> nat" where
  "find_best_mode f = fst (best_mode_loop ov5647_modes 0 f (0, NOT 0))"

section \<open>The device and what surrounds it\<close>

text \<open>
  Calls that leave the driver (clock, reset line, I2C transfers, warnings, framework
  registration) are recorded in order, whether they succeed or not.
\<close>

datatype event =
    Clk_Prepare_Enable
  | Clk_Disable_Unprepare
  | Gpiod_Set_Value bool
  | I2C_Master_Send "u8 list"
  | I2C_Master_Recv
  | Warn_On
  | Async_Register_Subdev
  | Media_Entity_Cleanup
  | Ctrl_Handler_Free
  | Mutex_Destroy
  | Pm_Runtime_Set_Active
  | Pm_Runtime_Enable
  | Pm_Runtime_Idle

text \<open>
  \<open>struct ov5647\<close> with what its handles point to. \<open>st_width\<close>, \<open>st_height\<close>,
  \<open>power_count\<close> and \<open>current_mode\<close> are the fields of the struct (\<open>current_mode\<close> only
  ever holds a loop index). \<open>xclk\<close> is the state of the clock behind the handle (enabled
  or not); \<open>reset_gpio\<close> is \<open>None\<close> when the board has no reset line and otherwise the
  logical value last driven (\<open>True\<close>: reset asserted). The I2C client is the sensor's
  register file \<open>regs\<close> with the address \<open>reg_ptr\<close> selected by the last message.
  \<open>faults\<close> is the schedule of the calls that can fail (\<open>clk_prepare_enable\<close>,
  \<open>i2c_master_send\<close>, \<open>i2c_master_recv\<close>): each such call takes the head of the list
  and fails with it when it is negative; with an empty list every call succeeds.
  \<open>trace\<close> is the record of the external calls made so far. Sleeps, the mutex and the
  log messages are not modelled.
\<close>

record ov5647 =
  st_width :: u32
  st_height :: u32
  power_count :: s32
  current_mode :: nat
  xclk :: bool
  reset_gpio :: "bool option"
  regs :: "u16 \<Rightarrow> u8"
  reg_ptr :: u16
  faults :: "int list"
  trace :: "event list"

definition next_result :: "ov5647 \<Rightarrow> int \<times> ov5647" where
  "next_result s = (case faults s of [] \<Rightarrow> (0, s) | e # es \<Rightarrow> (e, s\<lparr>faults := es\<rparr>))"

definition emit :: "event \<Rightarrow> ov5647 \<Rightarrow> ov5647" where
  "emit e s = s\<lparr>trace := trace s @ [e]\<rparr>"

subsection \<open>Clock and reset line\<close>

text \<open>
  Modelled from the spec: the kernel's clock, GPIO and I2C functions are not among the
  sources of the driver. The spec gives them as capabilities: \<open>enable_clock\<close>, which
  can fail, \<open>disable_clock\<close>, the reset line, which may be absent, and the register
  transport \<open>write(addr, byte)\<close> and \<open>read(addr)\<close>, which can fail. The
  definitions of this and the next subsection give them that behaviour.
\<close>

definition clk_prepare_enable :: "ov5647 \<Rightarrow> int \<times> ov5647" where
  "clk_prepare_enable s =
     (case next_result (emit Clk_Prepare_Enable s) of
        (e, s1) \<Rightarrow> if e < 0 then (e, s1) else (0, s1\<lparr>xclk := True\<rparr>))"

definition clk_disable_unprepare :: "ov5647 \<Rightarrow> ov5647" where
  "clk_disable_unprepare s = (emit Clk_Disable_Unprepare s)\<lparr>xclk := False\<rparr>"

text \<open>\<open>if (!IS_ERR_OR_NULL(reset_gpio)) gpiod_set_value_cansleep(reset_gpio, v)\<close>\<close>

definition reset_gpio_set :: "bool \<Rightarrow> ov5647 \<Rightarrow> ov5647" where
  "reset_gpio_set v s =
     (case reset_gpio s of
        None \<Rightarrow> s
      | Some _ \<Rightarrow> (emit (Gpiod_Set_Value v) s)\<lparr>reset_gpio := Some v\<rparr>)"

subsection \<open>I2C transfers\<close>

text \<open>
  The sensor takes a message of two address bytes and one data byte as a register write
  and a message of two address bytes as the selection of the register that the next read
  returns. A transfer that fails changes nothing in the sensor.
\<close>

definition reg_addr :: "u8 \<Rightarrow> u8 \<Rightarrow> u16" where
  "reg_addr hi lo = push_bit 8 (ucast hi) OR ucast lo"

definition sensor_receive :: "u8 list \<Rightarrow> ov5647 \<Rightarrow> ov5647" where
  "sensor_receive bytes s =
     (case bytes of
        [hi, lo] \<Rightarrow> s\<lparr>reg_ptr := reg_addr hi lo\<rparr>
      | [hi, lo, v] \<Rightarrow> s\<lparr>regs := (regs s)(reg_addr hi lo := v), reg_ptr := reg_addr hi lo\<rparr>
      | _ \<Rightarrow> s)"

definition i2c_master_send :: "ov5647 \<Rightarrow> u8 list \<Rightarrow> int \<times> ov5647" where
  "i2c_master_send s bytes =
     (case next_result (emit (I2C_Master_Send bytes) s) of
        (e, s1) \<Rightarrow> if e < 0 then (e, s1) else (int (length bytes), sensor_receive bytes s1))"

text \<open>Reads are always of one byte. Nothing is stored when the transfer fails.\<close>

definition i2c_master_recv :: "ov5647 \<Rightarrow> int \<times> u8 \<times> ov5647" where
  "i2c_master_recv s =
     (case next_result (emit I2C_Master_Recv s) of
        (e, s1) \<Rightarrow> if e < 0 then (e, 0, s1) else (1, regs s1 (reg_ptr s1), s1))"

section \<open>Register transport\<close>

definition ov5647_write :: "ov5647 \<Rightarrow> u16 \<Rightarrow> u8 \<Rightarrow> int \<times> ov5647" where
  "ov5647_write sd reg val =
     i2c_master_send sd [ucast (drop_bit 8 reg), ucast (reg AND 0xff), val]"

text \<open>
  The byte read is returned next to the return code; it stands for \<open>*val\<close>, which the
  callers look at only when the return code is not negative.
\<close>

definition ov5647_read :: "ov5647 \<Rightarrow> u16 \<Rightarrow> int \<times> u8 \<times> ov5647" where
  "ov5647_read sd reg =
     (case i2c_master_send sd [ucast (drop_bit 8 reg), ucast (reg AND 0xff)] of
        (ret, s1) \<Rightarrow> if ret < 0 then (ret, 0, s1) else i2c_master_recv s1)"

fun write_array_loop :: "ov5647 \<Rightarrow> regval_list list \<Rightarrow> int \<times> ov5647" where
  "write_array_loop sd [] = (0, sd)"
| "write_array_loop sd (r # rs) =
     (case ov5647_write sd (addr r) (data r) of
        (ret, s1) \<Rightarrow> if ret < 0 then (ret, s1) else write_array_loop s1 rs)"

text \<open>
  \<open>for (i = 0; i < array_size; i++)\<close> over \<open>regs[i]\<close>; every caller passes the size of
  the array it passes.
\<close>

definition ov5647_write_array :: "ov5647 \<Rightarrow> regval_list list \<Rightarrow> nat \<Rightarrow> int \<times> ov5647" where
  "ov5647_write_array sd rs array_size = write_array_loop sd (take array_size rs)"

definition ov5647_set_virtual_channel :: "ov5647 \<Rightarrow> s32 \<Rightarrow> int \<times> ov5647" where
  "ov5647_set_virtual_channel sd channel =
     (case ov5647_read sd OV5647_REG_MIPI_CTRL14 of
        (ret, channel_id, s1) \<Rightarrow>
          if ret < 0 then (ret, s1)
          else let channel_id = channel_id AND NOT (push_bit 6 3)
               in ov5647_write s1 OV5647_REG_MIPI_CTRL14
                    (ucast ((ucast channel_id :: s32) OR push_bit 6 channel)))"

section \<open>Streaming\<close>

definition ov5647_stream_on :: "ov5647 \<Rightarrow> int \<times> ov5647" where
  "ov5647_stream_on sd =
     (case ov5647_read sd OV5647_REG_MIPI_CTRL00 of
        (_, mipi_ctrl_before, s0) \<Rightarrow>
     (case ov5647_write s0 OV5647_REG_MIPI_CTRL00
             (MIPI_CTRL00_LINE_SYNC_ENABLE OR MIPI_CTRL00_BUS_IDLE) of
        (ret, s1) \<Rightarrow> if ret < 0 then (ret, s1) else
     (case ov5647_write s1 OV5647_REG_FRAME_OFF_NUMBER 0x00 of
        (ret, s2) \<Rightarrow> if ret < 0 then (ret, s2) else
      ov5647_write s2 OV5640_REG_PAD_OUT 0x00)))"

definition ov5647_stream_off :: "ov5647 \<Rightarrow> int \<times> ov5647" where
  "ov5647_stream_off sd =
     (case ov5647_write sd OV5647_REG_MIPI_CTRL00
             (MIPI_CTRL00_CLOCK_LANE_GATE OR MIPI_CTRL00_BUS_IDLE
              OR MIPI_CTRL00_CLOCK_LANE_DISABLE) of
        (ret, s1) \<Rightarrow> if ret < 0 then (ret, s1) else
     (case ov5647_write s1 OV5647_REG_FRAME_OFF_NUMBER 0x0f of
        (ret, s2) \<Rightarrow> if ret < 0 then (ret, s2) else
      ov5647_write s2 OV5640_REG_PAD_OUT 0x01))"

definition ov5647_s_stream :: "ov5647 \<Rightarrow> s32 \<Rightarrow> int \<times> ov5647" where
  "ov5647_s_stream sd enable =
     (if enable \<noteq> 0 then ov5647_stream_on sd else ov5647_stream_off sd)"

section \<open>Power\<close>

definition set_sw_standby :: "ov5647 \<Rightarrow> bool \<Rightarrow> int \<times> ov5647" where
  "set_sw_standby sd standby =
     (case ov5647_read sd OV5647_SW_STANDBY of
        (ret, rdval, s1) \<Rightarrow>
          if ret < 0 then (ret, s1)
          else ov5647_write s1 OV5647_SW_STANDBY
                 (if standby then rdval AND NOT 0x01 else rdval OR 0x01))"

text \<open>\<open>__sensor_init\<close>\<close>

definition sensor_init :: "ov5647 \<Rightarrow> int \<times> ov5647" where
  "sensor_init sd =
     (let mode = ov5647_modes ! current_mode sd in
      case ov5647_read sd OV5647_SW_STANDBY of
        (ret, rdval, s1) \<Rightarrow> if ret < 0 then (ret, s1) else
     (case ov5647_write_array s1 (reg_list mode) (num_regs mode) of
        (ret, s2) \<Rightarrow> if ret < 0 then (ret, s2) else
     (case ov5647_read s2 OV5647_REG_MIPI_CTRL00 of
        (_, mipi_ctrl, s3) \<Rightarrow>
     (case ov5647_set_virtual_channel s3 0 of
        (ret, s4) \<Rightarrow> if ret < 0 then (ret, s4) else
     (case ov5647_read s4 OV5647_SW_STANDBY of
        (ret, resetval, s5) \<Rightarrow> if ret < 0 then (ret, s5) else
      if resetval AND 0x01 = 0
      then (case ov5647_write s5 OV5647_SW_STANDBY 0x01 of
              (ret, s6) \<Rightarrow> if ret < 0 then (ret, s6) else ov5647_stream_off s6)
      else ov5647_stream_off s5)))))"

text \<open>
  The tail of \<open>ov5647_sensor_power\<close> that the error paths jump over:
  \<open>power_count += on ? 1 : -1; WARN_ON(power_count < 0)\<close>.
\<close>

definition update_power_count :: "s32 \<Rightarrow> ov5647 \<Rightarrow> ov5647" where
  "update_power_count on s =
     (let s1 = s\<lparr>power_count := power_count s + (if on \<noteq> 0 then 1 else - 1)\<rparr>
      in if power_count s1 <s 0 then emit Warn_On s1 else s1)"

definition ov5647_sensor_power :: "ov5647 \<Rightarrow> s32 \<Rightarrow> int \<times> ov5647" where
  "ov5647_sensor_power sd on =
     (if on \<noteq> 0 \<and> power_count sd = 0 then
        (case clk_prepare_enable sd of
           (ret, s1) \<Rightarrow> if ret < 0 then (ret, s1) else
        (let s2 = reset_gpio_set False s1 in
         case ov5647_write_array s2 sensor_oe_enable_regs (length sensor_oe_enable_regs) of
           (ret, s3) \<Rightarrow> if ret < 0 then (ret, clk_disable_unprepare s3) else
        (case sensor_init s3 of
           (ret, s4) \<Rightarrow> if ret < 0 then (ret, clk_disable_unprepare s4)
                        else (ret, update_power_count on s4))))
      else if on = 0 \<and> power_count sd = 1 then
        (case ov5647_write_array sd sensor_oe_disable_regs (length sensor_oe_disable_regs) of
           (_, s1) \<Rightarrow>
        (case set_sw_standby s1 True of
           (ret, s2) \<Rightarrow>
             (ret, update_power_count on (reset_gpio_set True (clk_disable_unprepare s2)))))
      else (0, update_power_count on sd))"

section \<open>Setting the format\<close>

text \<open>
  \<open>cfg\<close> stands for the try format of the pad configuration. \<open>subdev_api\<close> is the build
  option \<open>CONFIG_VIDEO_V4L2_SUBDEV_API\<close>. The result is the return code, the driver
  state, the pad configuration and the format handed back to the caller.
\<close>

definition ov5647_set_fmt ::
  "bool \<Rightarrow> ov5647 \<Rightarrow> v4l2_mbus_framefmt \<Rightarrow> v4l2_subdev_format \<Rightarrow>
   int \<times> ov5647 \<times> v4l2_mbus_framefmt \<times> v4l2_subdev_format" where
  "ov5647_set_fmt subdev_api sd cfg fmt =
     (let best_mode = find_best_mode (format fmt);
          fmt1 = fmt\<lparr>format := (format fmt)\<lparr>
                   mf_width := width (ov5647_modes ! best_mode),
                   mf_height := height (ov5647_modes ! best_mode),
                   mf_code := mbus_code (ov5647_modes ! best_mode),
                   mf_field := V4L2_FIELD_NONE,
                   mf_colorspace := V4L2_COLORSPACE_SRGB\<rparr>\<rparr>
      in if which fmt = V4L2_SUBDEV_FORMAT_TRY
         then (0, sd, if subdev_api then format fmt1 else cfg, fmt1)
         else (0, sd\<lparr>current_mode := best_mode,
                     st_width := mf_width (format fmt1),
                     st_height := mf_height (format fmt1)\<rparr>, cfg, fmt1))"

section \<open>Detection\<close>

definition ov5647_detect :: "ov5647 \<Rightarrow> int \<times> ov5647" where
  "ov5647_detect sd =
     (case ov5647_write sd OV5647_SW_RESET 0x01 of
        (ret, s1) \<Rightarrow> if ret < 0 then (ret, s1) else
     (case ov5647_read s1 OV5647_REG_CHIPID_H of
        (ret, rd, s2) \<Rightarrow> if ret < 0 then (ret, s2) else
      if rd \<noteq> 0x56 then (- ENODEV, s2) else
     (case ov5647_read s2 OV5647_REG_CHIPID_L of
        (ret, rd, s3) \<Rightarrow> if ret < 0 then (ret, s3) else
      if rd \<noteq> 0x47 then (- ENODEV, s3) else
      ov5647_write s3 OV5647_SW_RESET 0x00)))"

section \<open>Controls\<close>

text \<open>
  The control identifiers that \<open>ov5647_s_ctrl\<close> switches on, and one constructor for
  every other identifier (the \<open>default\<close> branch).
\<close>

datatype v4l2_cid =
    V4L2_CID_AUTO_WHITE_BALANCE
  | V4L2_CID_AUTOGAIN
  | V4L2_CID_EXPOSURE_AUTO
  | V4L2_CID_EXPOSURE
  | V4L2_CID_ANALOGUE_GAIN
  | V4L2_CID_OTHER u32

record v4l2_ctrl =
  ctrl_id :: v4l2_cid
  ctrl_val :: s32

text \<open>
  The value is an \<open>int\<close>: \<open>>>\<close> is the arithmetic shift, and the argument of
  \<open>ov5647_write\<close> is cut to a byte.
\<close>

definition ov5647_s_ctrl :: "ov5647 \<Rightarrow> v4l2_ctrl \<Rightarrow> int \<times> ov5647" where
  "ov5647_s_ctrl sensor ctrl =
     (if power_count sensor = 0 then (0, sensor) else
      case
        (case ctrl_id ctrl of
           V4L2_CID_AUTO_WHITE_BALANCE \<Rightarrow>
             ov5647_write sensor OV5647_REG_AWB (if ctrl_val ctrl \<noteq> 0 then 1 else 0)
         | V4L2_CID_AUTOGAIN \<Rightarrow>
             (case ov5647_read sensor OV5647_REG_AEC_AGC of
                (ret, reg, s1) \<Rightarrow> if ret < 0 then (ret, s1) else
                  ov5647_write s1 OV5647_REG_AEC_AGC
                    (if ctrl_val ctrl \<noteq> 0 then reg AND NOT OV5647_AGC_ENABLE
                     else reg OR OV5647_AGC_ENABLE))
         | V4L2_CID_EXPOSURE_AUTO \<Rightarrow>
             (case ov5647_read sensor OV5647_REG_AEC_AGC of
                (ret, reg, s1) \<Rightarrow> if ret < 0 then (ret, s1) else
                  ov5647_write s1 OV5647_REG_AEC_AGC
                    (if ctrl_val ctrl = V4L2_EXPOSURE_AUTO then reg AND NOT OV5647_AEC_ENABLE
                     else reg OR OV5647_AEC_ENABLE))
         | V4L2_CID_EXPOSURE \<Rightarrow>
             (case ov5647_write sensor OV5647_REG_EXPOSURE_HI
                     (ucast (signed_drop_bit 12 (ctrl_val ctrl) AND 0x0f)) of
                (ret, s1) \<Rightarrow> if ret < 0 then (ret, s1) else
             (case ov5647_write s1 OV5647_REG_EXPOSURE_MID
                     (ucast (signed_drop_bit 4 (ctrl_val ctrl) AND 0xff)) of
                (ret, s2) \<Rightarrow> if ret < 0 then (ret, s2) else
              ov5647_write s2 OV5647_REG_EXPOSURE_LO
                (ucast (push_bit 4 (ctrl_val ctrl) AND 0xf0))))
         | V4L2_CID_ANALOGUE_GAIN \<Rightarrow>
             (case ov5647_write sensor OV5647_REG_GAIN_HI
                     (ucast (signed_drop_bit 8 (ctrl_val ctrl) AND 0x03)) of
                (ret, s1) \<Rightarrow> if ret < 0 then (ret, s1) else
              ov5647_write s1 OV5647_REG_GAIN_LO (ucast (ctrl_val ctrl AND 0xff)))
         | V4L2_CID_OTHER _ \<Rightarrow> (- EINVAL, sensor))
      of (ret, s') \<Rightarrow> (if ret < 0 then ret else 0, s'))"

section \<open>Attaching the device\<close>

text \<open>\<open>__ov5647_power_on\<close> and \<open>__ov5647_power_off\<close>\<close>

definition ov5647_power_on :: "ov5647 \<Rightarrow> int \<times> ov5647" where
  "ov5647_power_on s =
     (case clk_prepare_enable s of
        (ret, s1) \<Rightarrow> if ret < 0 then (ret, s1) else (0, reset_gpio_set False s1))"

definition ov5647_power_off :: "ov5647 \<Rightarrow> ov5647" where
  "ov5647_power_off s = clk_disable_unprepare (reset_gpio_set True s)"

text \<open>
  What the platform answers to the calls of \<open>ov5647_probe\<close> that come before the sensor
  is touched: the allocation, the device-tree endpoint and its parse, the clock handle
  and its rate, the optional reset line, the control handler and the media pads, and,
  after detection, the registration of the sub-device.
\<close>

datatype gpio_lookup = Gpio_Error | Gpio_Absent | Gpio_Present

record platform =
  kzalloc_ok :: bool
  of_node :: bool
  endpoint :: bool
  endpoint_parse_ret :: int
  clk_get_err :: int
  clk_rate :: u32
  reset_lookup :: gpio_lookup
  ctrl_handler_init_ret :: int
  ctrl_handler_error :: int
  pads_init_ret :: int
  register_ret :: int

definition ov5647_parse_dt :: "platform \<Rightarrow> int" where
  "ov5647_parse_dt p = (if \<not> endpoint p then - EINVAL else endpoint_parse_ret p)"

definition ov5647_init_controls :: "platform \<Rightarrow> ov5647 \<Rightarrow> int \<times> ov5647" where
  "ov5647_init_controls p sensor =
     (if ctrl_handler_init_ret p \<noteq> 0 then (ctrl_handler_init_ret p, sensor)
      else if ctrl_handler_error p \<noteq> 0
           then (ctrl_handler_error p, emit Ctrl_Handler_Free sensor)
           else (0, sensor))"

text \<open>
  The argument \<open>hw\<close> gives the sensor, the clock and the fault schedule before the
  call; the fields of the freshly zeroed \<open>struct ov5647\<close> replace its driver fields.
\<close>

definition ov5647_probe :: "platform \<Rightarrow> ov5647 \<Rightarrow> int \<times> ov5647" where
  "ov5647_probe p hw =
     (if \<not> kzalloc_ok p then (- ENOMEM, hw) else
      let sensor = hw\<lparr>st_width := 0, st_height := 0, power_count := 0, current_mode := 0,
                       reset_gpio := None\<rparr> in
      if of_node p \<and> ov5647_parse_dt p \<noteq> 0 then (ov5647_parse_dt p, sensor) else
      if clk_get_err p \<noteq> 0 then (clk_get_err p, sensor) else
      if clk_rate p \<noteq> 25000000 then (- EINVAL, sensor) else
      let sensor = sensor\<lparr>reset_gpio :=
                     (case reset_lookup p of Gpio_Present \<Rightarrow> Some True | _ \<Rightarrow> None)\<rparr> in
      case ov5647_init_controls p sensor of
        (ret, s1) \<Rightarrow> if ret \<noteq> 0 then (ret, emit Mutex_Destroy s1) else
      if pads_init_ret p < 0
      then (pads_init_ret p, emit Mutex_Destroy (emit Ctrl_Handler_Free s1)) else
      let cleanup = (\<lambda>s. emit Mutex_Destroy (emit Ctrl_Handler_Free
                            (emit Media_Entity_Cleanup s))) in
     (case ov5647_power_on s1 of
        (ret, s2) \<Rightarrow> if ret \<noteq> 0 then (ret, cleanup s2) else
     (case ov5647_detect s2 of
        (ret, s3) \<Rightarrow> if ret < 0 then (ret, cleanup (ov5647_power_off s3)) else
      let s4 = emit Async_Register_Subdev s3 in
      if register_ret p < 0 then (register_ret p, cleanup (ov5647_power_off s4)) else
      (0, emit Pm_Runtime_Idle (emit Pm_Runtime_Enable (emit Pm_Runtime_Set_Active s4))))))"

section \<open>The selection rule as the specification words it\<close>

definition LARGE_PENALTY :: int where
  "LARGE_PENALTY = 10000"

text \<open>
  The distance of a mode from a request, and the cost of the specification:
  \<open>|width_i - requested_width| + |height_i - requested_height|\<close>, plus the penalty when
  the formats differ, over the integers.
\<close>

definition dimension_distance :: "ov5647_mode \<Rightarrow> v4l2_mbus_framefmt \<Rightarrow> int" where
  "dimension_distance m f =
     \<bar>uint (width m) - uint (mf_width f)\<bar> + \<bar>uint (height m) - uint (mf_height f)\<bar>"

definition spec_cost :: "ov5647_mode \<Rightarrow> v4l2_mbus_framefmt \<Rightarrow> int" where
  "spec_cost m f =
     dimension_distance m f + (if mbus_code m \<noteq> mf_code f then LARGE_PENALTY else 0)"

text \<open>A request whose cost the 32-bit arithmetic of the driver computes without wrapping.\<close>

definition request_in_range :: "v4l2_mbus_framefmt \<Rightarrow> bool" where
  "request_in_range f \<longleftrightarrow>
     uint (mf_width f) < 2 ^ 31 \<and> uint (mf_height f) < 2 ^ 31 \<and>
     uint (mf_width f) + uint (mf_height f) < 2 ^ 32 - 10000"

text \<open>The distance between two entries of the table.\<close>

definition mode_distance :: "ov5647_mode \<Rightarrow> ov5647_mode \<Rightarrow> int" where
  "mode_distance m m' =
     \<bar>uint (width m) - uint (width m')\<bar> + \<bar>uint (height m) - uint (height m')\<bar>"

section \<open>Sample inputs\<close>

text \<open>
  A sensor that is attached and powered off: counter at zero, first mode selected, clock
  off, reset asserted, the identity registers holding \<open>0x56\<close> and \<open>0x47\<close>, no fault
  scheduled and nothing recorded yet.
\<close>

definition sensor_off :: ov5647 where
  "sensor_off =
     \<lparr>st_width = 0, st_height = 0, power_count = 0, current_mode = 0, xclk = False,
      reset_gpio = Some True,
      regs = (\<lambda>a. if a = 0x300A then 0x56 else if a = 0x300B then 0x47 else 0),
      reg_ptr = 0, faults = [], trace = []\<rparr>"

text \<open>The same sensor held powered by one user.\<close>

definition sensor_on :: ov5647 where
  "sensor_on = sensor_off\<lparr>power_count := 1, xclk := True, reset_gpio := Some False\<rparr>"

text \<open>A chip that answers \<open>0x55\<close> for the high identity byte.\<close>

definition sensor_wrong_id :: ov5647 where
  "sensor_wrong_id = sensor_off\<lparr>regs := (regs sensor_off)(0x300A := 0x55)\<rparr>"

text \<open>A board on which every step of the attach before detection succeeds.\<close>

definition board :: platform where
  "board =
     \<lparr>kzalloc_ok = True, of_node = True, endpoint = True, endpoint_parse_ret = 0,
      clk_get_err = 0, clk_rate = 25000000, reset_lookup = Gpio_Present,
      ctrl_handler_init_ret = 0, ctrl_handler_error = 0, pads_init_ret = 0,
      register_ret = 0\<rparr>"

definition request :: "u32 \<Rightarrow> u32 \<Rightarrow> u32 \<Rightarrow> v4l2_mbus_framefmt" where
  "request w h c =
     \<lparr>mf_width = w, mf_height = h, mf_code = c, mf_field = 0, mf_colorspace = 0\<rparr>"

section \<open>Reading the record of calls\<close>

text \<open>
  The entries that \<open>ov5647_write\<close> and \<open>ov5647_read\<close> leave in the record: a register
  write is one message of three bytes, a register read is a message of two bytes followed
  by a one-byte read.
\<close>

definition reg_write :: "u16 \<Rightarrow> u8 \<Rightarrow> event" where
  "reg_write reg val = I2C_Master_Send [ucast (drop_bit 8 reg), ucast (reg AND 0xff), val]"

definition reg_read :: "u16 \<Rightarrow> event list" where
  "reg_read reg = [I2C_Master_Send [ucast (drop_bit 8 reg), ucast (reg AND 0xff)], I2C_Master_Recv]"

text \<open>The register file after a register sequence has been written to it.\<close>

definition regs_after :: "regval_list list \<Rightarrow> (u16 \<Rightarrow> u8) \<Rightarrow> (u16 \<Rightarrow> u8)" where
  "regs_after rs f = fold (\<lambda>r g. g(addr r := data r)) rs f"

definition reg_writes :: "regval_list list \<Rightarrow> event list" where
  "reg_writes rs = map (\<lambda>r. reg_write (addr r) (data r)) rs"

text \<open>
  The calls of a complete power-on of the sensor \<open>s\<close>: clock, reset line released (when
  the board has one), the output-enable group, and the application of the current mode
  (standby read, the mode's register sequence, the read of the MIPI control register,
  the virtual channel, the standby check, the three writes that leave the stream off).
\<close>

definition power_on_sequence :: "ov5647 \<Rightarrow> event list" where
  "power_on_sequence s =
     [Clk_Prepare_Enable]
     @ (case reset_gpio s of None \<Rightarrow> [] | Some _ \<Rightarrow> [Gpiod_Set_Value False])
     @ reg_writes sensor_oe_enable_regs
     @ reg_read OV5647_SW_STANDBY
     @ reg_writes (reg_list (ov5647_modes ! current_mode s))
     @ reg_read OV5647_REG_MIPI_CTRL00
     @ reg_read OV5647_REG_MIPI_CTRL14
     @ [reg_write OV5647_REG_MIPI_CTRL14 (regs s OV5647_REG_MIPI_CTRL14 AND 0x3f)]
     @ reg_read OV5647_SW_STANDBY
     @ [reg_write OV5647_REG_MIPI_CTRL00 0x25,
        reg_write OV5647_REG_FRAME_OFF_NUMBER 0x0f,
        reg_write OV5640_REG_PAD_OUT 0x01]"

text \<open>
  The calls of a complete power-off: the output-disable group, software standby, clock,
  reset line asserted (when the board has one).
\<close>

definition power_off_sequence :: "ov5647 \<Rightarrow> event list" where
  "power_off_sequence s =
     reg_writes sensor_oe_disable_regs
     @ reg_read OV5647_SW_STANDBY
     @ [reg_write OV5647_SW_STANDBY 0x00]
     @ [Clk_Disable_Unprepare]
     @ (case reset_gpio s of None \<Rightarrow> [] | Some _ \<Rightarrow> [Gpiod_Set_Value True])"

text \<open>A caller that issues \<open>s_power\<close> calls one after the other.\<close>

definition run_power :: "s32 list \<Rightarrow> ov5647 \<Rightarrow> ov5647" where
  "run_power ons s = fold (\<lambda>on s. snd (ov5647_sensor_power s on)) ons s"

text \<open>
  \<open>bus_only s s'\<close>: from \<open>s\<close> to \<open>s'\<close> nothing happened but I2C transfers. The driver
  fields, the clock and the reset line are the same, the record of calls grew by I2C
  entries only, and the fault schedule lost some of its entries.
\<close>

fun is_i2c :: "event \<Rightarrow> bool" where
  "is_i2c (I2C_Master_Send _) = True"
| "is_i2c I2C_Master_Recv = True"
| "is_i2c _ = False"

definition bus_only :: "ov5647 \<Rightarrow> ov5647 \<Rightarrow> bool" where
  "bus_only s s' \<longleftrightarrow>
     st_width s' = st_width s \<and> st_height s' = st_height s \<and>
     power_count s' = power_count s \<and> current_mode s' = current_mode s \<and>
     xclk s' = xclk s \<and> reset_gpio s' = reset_gpio s \<and>
     set (faults s') \<subseteq> set (faults s) \<and>
     take (length (trace s)) (trace s') = trace s \<and>
     list_all is_i2c (drop (length (trace s)) (trace s'))"

definition registered :: "ov5647 \<Rightarrow> bool" where
  "registered s \<longleftrightarrow> Async_Register_Subdev \<in> set (trace s)"

text \<open>The platform lets \<open>ov5647_probe\<close> get as far as powering the sensor for detection.\<close>

definition reaches_detect :: "platform \<Rightarrow> bool" where
  "reaches_detect p \<longleftrightarrow>
     kzalloc_ok p \<and> (of_node p \<longrightarrow> ov5647_parse_dt p = 0) \<and> clk_get_err p = 0 \<and>
     clk_rate p = 25000000 \<and> ctrl_handler_init_ret p = 0 \<and> ctrl_handler_error p = 0 \<and>
     \<not> pads_init_ret p < 0"


section \<open>Selecting a mode: properties\<close>

lemma int_range_s32:
  "0 \<le> (x::int) \<Longrightarrow> x < 2147483648 \<Longrightarrow> 0 \<le> y \<Longrightarrow> y < 2147483648 \<Longrightarrow>
     - 2147483648 \<le> x - y \<and> x - y < 2147483648"
  by arith

lemma sint_small:
  fixes a :: "32 word"
  assumes "uint a < 2 ^ 31"
  shows "sint a = uint a"
proof -
  have "- (2 ^ 31) \<le> uint a \<and> uint a < 2 ^ 31"
    using int_range_s32[OF uint_ge_0[of a] _ order_refl, of ] assms by simp
  then have "signed_take_bit 31 (uint a) = uint a"
    by (simp add: signed_take_bit_int_eq_self)
  then show ?thesis by (simp add: sint_uint)
qed

lemma sint_sub_small:
  fixes a b :: "32 word"
  assumes "uint a < 2 ^ 31" "uint b < 2 ^ 31"
  shows "sint (a - b) = uint a - uint b"
proof -
  have a: "sint a = uint a" using assms(1) by (rule sint_small)
  have b: "sint b = uint b" using assms(2) by (rule sint_small)
  have "- (2 ^ 31) \<le> uint a - uint b \<and> uint a - uint b < 2 ^ 31"
    using int_range_s32[OF uint_ge_0[of a] _ uint_ge_0[of b]] assms by simp
  then have r: "signed_take_bit 31 (uint a - uint b) = uint a - uint b"
    by (simp add: signed_take_bit_int_eq_self)
  have "sint (a - b) = signed_take_bit 31 (sint a - sint b)"
    by (simp add: sint_word_ariths)
  then show ?thesis using r a b by simp
qed

lemma int_cost_bound:
  "0 \<le> (W::int) \<Longrightarrow> W \<le> 2592 \<Longrightarrow> 0 \<le> H \<Longrightarrow> H \<le> 1944 \<Longrightarrow>
   0 \<le> w \<Longrightarrow> w < 2147483648 \<Longrightarrow> 0 \<le> h \<Longrightarrow> h < 2147483648 \<Longrightarrow>
   w + h < 4294957296 \<Longrightarrow> \<bar>W - w\<bar> + \<bar>H - h\<bar> + 10000 < 4294967296"
  by arith

lemma uint_abs_s32_sub:
  fixes a b :: "32 word"
  assumes "uint a < 2 ^ 31" "uint b < 2 ^ 31"
  shows "uint (abs_s32 (a - b)) = \<bar>uint a - uint b\<bar>"
proof (cases "uint a < uint b")
  case True
  have "sint (a - b) < 0" using True sint_sub_small[OF assms] by simp
  then have "abs_s32 (a - b) = b - a" by (simp add: abs_s32_def word_sless_alt)
  moreover have "uint (b - a) = uint b - uint a"
    using True by (simp add: uint_sub_if')
  ultimately show ?thesis using True by simp
next
  case False
  have "\<not> sint (a - b) < 0" using False sint_sub_small[OF assms] by simp
  then have "abs_s32 (a - b) = a - b" by (simp add: abs_s32_def word_sless_alt)
  moreover have "uint (a - b) = uint a - uint b"
    using False by (simp add: uint_sub_if')
  ultimately show ?thesis using False by simp
qed

lemma uint_mode_diff:
  assumes m: "uint (width m) \<le> 2592" "uint (height m) \<le> 1944"
    and r: "request_in_range f"
  shows "uint (mode_diff m f) = spec_cost m f"
proof -
  from r have w: "uint (mf_width f) < 2 ^ 31" and h: "uint (mf_height f) < 2 ^ 31"
    and s: "uint (mf_width f) + uint (mf_height f) < 2 ^ 32 - 10000"
    by (simp_all add: request_in_range_def)
  let ?a = "abs_s32 (width m - mf_width f)" and ?b = "abs_s32 (height m - mf_height f)"
  have a: "uint ?a = \<bar>uint (width m) - uint (mf_width f)\<bar>"
    using m w by (intro uint_abs_s32_sub) auto
  have b: "uint ?b = \<bar>uint (height m) - uint (mf_height f)\<bar>"
    using m h by (intro uint_abs_s32_sub) auto
  have bound: "uint ?a + uint ?b + 10000 < 2 ^ 32"
    unfolding a b
    using int_cost_bound[OF uint_ge_0[of "width m"] _ uint_ge_0[of "height m"] _
        uint_ge_0[of "mf_width f"] _ uint_ge_0[of "mf_height f"]] m w h s
    by simp
  have ab: "uint (?a + ?b) = uint ?a + uint ?b"
    using bound by (simp add: uint_plus_if')
  have abp: "uint (?a + ?b + 10000) = uint ?a + uint ?b + 10000"
    using bound ab by (simp add: uint_plus_if')
  show ?thesis
    using ab abp a b by (simp add: mode_diff_def spec_cost_def dimension_distance_def LARGE_PENALTY_def Let_def)
qed

lemma best_mode_loop_spec:
  "best_mode_loop ms i f (bm, bd) = (bm', bd') \<Longrightarrow>
     (bm' = bm \<and> bd' = bd \<and> (\<forall>k<length ms. bd \<le> mode_diff (ms ! k) f)) \<or>
     (\<exists>k<length ms. bm' = i + k \<and> bd' = mode_diff (ms ! k) f \<and> bd' < bd \<and>
        (\<forall>j<k. bd' < mode_diff (ms ! j) f) \<and>
        (\<forall>j<length ms. bd' \<le> mode_diff (ms ! j) f))"
proof (induction ms arbitrary: i bm bd)
  case Nil
  then show ?case by simp
next
  case (Cons m ms)
  let ?d = "mode_diff m f"
  show ?case
  proof (cases "?d < bd")
    case True
    with Cons.prems have run: "best_mode_loop ms (i + 1) f (i, ?d) = (bm', bd')"
      by (simp add: Let_def)
    from Cons.IH[OF run] show ?thesis
    proof
      assume "bm' = i \<and> bd' = ?d \<and> (\<forall>k<length ms. ?d \<le> mode_diff (ms ! k) f)"
      then have "bm' = i + 0 \<and> bd' = mode_diff ((m # ms) ! 0) f \<and> bd' < bd \<and>
        (\<forall>j<0. bd' < mode_diff ((m # ms) ! j) f) \<and>
        (\<forall>j<length (m # ms). bd' \<le> mode_diff ((m # ms) ! j) f)"
        using True by (auto simp: nth_Cons split: nat.splits)
      then show ?thesis by blast
    next
      assume "\<exists>k<length ms. bm' = i + 1 + k \<and> bd' = mode_diff (ms ! k) f \<and> bd' < ?d \<and>
        (\<forall>j<k. bd' < mode_diff (ms ! j) f) \<and>
        (\<forall>j<length ms. bd' \<le> mode_diff (ms ! j) f)"
      then obtain k where k: "k < length ms" "bm' = i + 1 + k" "bd' = mode_diff (ms ! k) f"
        "bd' < ?d" "\<forall>j<k. bd' < mode_diff (ms ! j) f"
        "\<forall>j<length ms. bd' \<le> mode_diff (ms ! j) f" by blast
      have "Suc k < length (m # ms) \<and> bm' = i + Suc k \<and>
        bd' = mode_diff ((m # ms) ! Suc k) f \<and> bd' < bd \<and>
        (\<forall>j<Suc k. bd' < mode_diff ((m # ms) ! j) f) \<and>
        (\<forall>j<length (m # ms). bd' \<le> mode_diff ((m # ms) ! j) f)"
        using k True by (auto simp: nth_Cons split: nat.splits)
      then show ?thesis by blast
    qed
  next
    case False
    with Cons.prems have run: "best_mode_loop ms (i + 1) f (bm, bd) = (bm', bd')"
      by (simp add: Let_def)
    from Cons.IH[OF run] show ?thesis
    proof
      assume "bm' = bm \<and> bd' = bd \<and> (\<forall>k<length ms. bd \<le> mode_diff (ms ! k) f)"
      then show ?thesis using False by (auto simp: nth_Cons split: nat.splits)
    next
      assume "\<exists>k<length ms. bm' = i + 1 + k \<and> bd' = mode_diff (ms ! k) f \<and> bd' < bd \<and>
        (\<forall>j<k. bd' < mode_diff (ms ! j) f) \<and>
        (\<forall>j<length ms. bd' \<le> mode_diff (ms ! j) f)"
      then obtain k where k: "k < length ms" "bm' = i + 1 + k" "bd' = mode_diff (ms ! k) f"
        "bd' < bd" "\<forall>j<k. bd' < mode_diff (ms ! j) f"
        "\<forall>j<length ms. bd' \<le> mode_diff (ms ! j) f" by blast
      have "Suc k < length (m # ms) \<and> bm' = i + Suc k \<and>
        bd' = mode_diff ((m # ms) ! Suc k) f \<and> bd' < bd \<and>
        (\<forall>j<Suc k. bd' < mode_diff ((m # ms) ! j) f) \<and>
        (\<forall>j<length (m # ms). bd' \<le> mode_diff ((m # ms) ! j) f)"
        using k False by (auto simp: nth_Cons split: nat.splits)
      then show ?thesis by blast
    qed
  qed
qed

lemma best_mode_loop_first_min:
  fixes f :: v4l2_mbus_framefmt
  assumes "ms \<noteq> []"
  defines "b \<equiv> fst (best_mode_loop ms 0 f (0, NOT 0))"
  shows "b < length ms"
    and "\<forall>j<length ms. mode_diff (ms ! b) f \<le> mode_diff (ms ! j) f"
    and "\<forall>j<b. mode_diff (ms ! b) f < mode_diff (ms ! j) f"
proof -
  obtain bm' bd' where r: "best_mode_loop ms 0 f (0, NOT 0) = (bm', bd')"
    by (cases "best_mode_loop ms 0 f (0, NOT 0)")
  have b: "b = bm'" using r by (simp add: b_def)
  have top: "x \<le> (NOT 0 :: u32)" for x by simp
  from best_mode_loop_spec[OF r]
  have "b < length ms \<and> (\<forall>j<length ms. mode_diff (ms ! b) f \<le> mode_diff (ms ! j) f) \<and>
     (\<forall>j<b. mode_diff (ms ! b) f < mode_diff (ms ! j) f)"
  proof
    assume u: "bm' = 0 \<and> bd' = NOT 0 \<and> (\<forall>k<length ms. NOT 0 \<le> mode_diff (ms ! k) f)"
    then have "\<forall>k<length ms. mode_diff (ms ! k) f = NOT 0"
      using top by (metis antisym)
    then show ?thesis using u b assms(1) by auto
  next
    assume "\<exists>k<length ms. bm' = 0 + k \<and> bd' = mode_diff (ms ! k) f \<and> bd' < NOT 0 \<and>
        (\<forall>j<k. bd' < mode_diff (ms ! j) f) \<and>
        (\<forall>j<length ms. bd' \<le> mode_diff (ms ! j) f)"
    then show ?thesis using b by auto
  qed
  then show "b < length ms"
    and "\<forall>j<length ms. mode_diff (ms ! b) f \<le> mode_diff (ms ! j) f"
    and "\<forall>j<b. mode_diff (ms ! b) f < mode_diff (ms ! j) f" by blast+
qed


lemma modes_length: "length ov5647_modes = 6"
  by (simp add: ov5647_modes_def)

lemma modes_bounded:
  "m \<in> set ov5647_modes \<Longrightarrow> uint (width m) \<le> 2592 \<and> uint (height m) \<le> 1944"
  by (auto simp: ov5647_modes_def)

lemma modes_close:
  "m \<in> set ov5647_modes \<Longrightarrow> m' \<in> set ov5647_modes \<Longrightarrow> mode_distance m m' \<le> 3416"
  by (auto simp: ov5647_modes_def mode_distance_def)

lemma find_best_mode_min:
  shows "find_best_mode f < length ov5647_modes"
    and "\<forall>j<length ov5647_modes.
           mode_diff (ov5647_modes ! find_best_mode f) f \<le> mode_diff (ov5647_modes ! j) f"
    and "\<forall>j<find_best_mode f.
           mode_diff (ov5647_modes ! find_best_mode f) f < mode_diff (ov5647_modes ! j) f"
proof -
  have ne: "ov5647_modes \<noteq> []" using modes_length by auto
  show "find_best_mode f < length ov5647_modes"
    unfolding find_best_mode_def by (rule best_mode_loop_first_min(1)[OF ne])
  show "\<forall>j<length ov5647_modes.
           mode_diff (ov5647_modes ! find_best_mode f) f \<le> mode_diff (ov5647_modes ! j) f"
    unfolding find_best_mode_def by (rule best_mode_loop_first_min(2)[OF ne])
  show "\<forall>j<find_best_mode f.
           mode_diff (ov5647_modes ! find_best_mode f) f < mode_diff (ov5647_modes ! j) f"
    unfolding find_best_mode_def by (rule best_mode_loop_first_min(3)[OF ne])
qed

lemma mode_diff_spec_cost:
  assumes "request_in_range f" "j < length ov5647_modes"
  shows "uint (mode_diff (ov5647_modes ! j) f) = spec_cost (ov5647_modes ! j) f"
proof -
  have "ov5647_modes ! j \<in> set ov5647_modes" using assms(2) by (rule nth_mem)
  then have "uint (width (ov5647_modes ! j)) \<le> 2592 \<and> uint (height (ov5647_modes ! j)) \<le> 1944"
    by (rule modes_bounded)
  then show ?thesis using assms(1) by (simp add: uint_mode_diff)
qed

lemma find_best_mode_spec_min:
  assumes r: "request_in_range f"
  shows "\<forall>j<length ov5647_modes.
           spec_cost (ov5647_modes ! find_best_mode f) f \<le> spec_cost (ov5647_modes ! j) f"
    and "\<forall>j<find_best_mode f.
           spec_cost (ov5647_modes ! find_best_mode f) f < spec_cost (ov5647_modes ! j) f"
proof -
  note b = find_best_mode_min(1)[of f]
  show "\<forall>j<length ov5647_modes.
           spec_cost (ov5647_modes ! find_best_mode f) f \<le> spec_cost (ov5647_modes ! j) f"
  proof (intro allI impI)
    fix j assume j: "j < length ov5647_modes"
    have "mode_diff (ov5647_modes ! find_best_mode f) f \<le> mode_diff (ov5647_modes ! j) f"
      using find_best_mode_min(2) j by blast
    then show "spec_cost (ov5647_modes ! find_best_mode f) f \<le> spec_cost (ov5647_modes ! j) f"
      using mode_diff_spec_cost[OF r b] mode_diff_spec_cost[OF r j]
      by (simp add: word_le_def)
  qed
  show "\<forall>j<find_best_mode f.
           spec_cost (ov5647_modes ! find_best_mode f) f < spec_cost (ov5647_modes ! j) f"
  proof (intro allI impI)
    fix j assume j: "j < find_best_mode f"
    then have jl: "j < length ov5647_modes" using b by simp
    have "mode_diff (ov5647_modes ! find_best_mode f) f < mode_diff (ov5647_modes ! j) f"
      using find_best_mode_min(3) j by blast
    then show "spec_cost (ov5647_modes ! find_best_mode f) f < spec_cost (ov5647_modes ! j) f"
      using mode_diff_spec_cost[OF r b] mode_diff_spec_cost[OF r jl]
      by (simp add: word_less_def)
  qed
qed


lemma set_fmt_result:
  "ov5647_set_fmt subdev_api sd cfg fmt = (ret, sd', cfg', fmt') \<Longrightarrow>
     ret = 0 \<and>
     mf_width (format fmt') = width (ov5647_modes ! find_best_mode (format fmt)) \<and>
     mf_height (format fmt') = height (ov5647_modes ! find_best_mode (format fmt)) \<and>
     mf_code (format fmt') = mbus_code (ov5647_modes ! find_best_mode (format fmt)) \<and>
     (which fmt = V4L2_SUBDEV_FORMAT_TRY \<longrightarrow> sd' = sd) \<and>
     (which fmt \<noteq> V4L2_SUBDEV_FORMAT_TRY \<longrightarrow>
        current_mode sd' = find_best_mode (format fmt))"
  by (auto simp: ov5647_set_fmt_def Let_def split: if_splits)

text \<open>
  Claim C1, as amended. For every request whose width and height are below \<open>2^31\<close> and
  sum to less than \<open>2^32 - 10000\<close>, \<open>ov5647_set_fmt\<close> hands back the width, height and
  format code of a table entry \<open>b\<close> (and stores \<open>b\<close> as the current mode when the call is
  not a TRY) whose cost \<open>|width_i - w| + |height_i - h| + (10000 if the formats differ)\<close>
  is minimal over the table, and every entry before \<open>b\<close> costs strictly more: ties go to
  the lowest index.
\<close>

theorem set_fmt_first_minimum:
  assumes "request_in_range (format fmt)"
  shows "case ov5647_set_fmt subdev_api sd cfg fmt of
           (ret, sd', cfg', fmt') \<Rightarrow>
             (\<exists>b<OV5647_NUM_MODES.
                mf_width (format fmt') = width (ov5647_modes ! b) \<and>
                mf_height (format fmt') = height (ov5647_modes ! b) \<and>
                mf_code (format fmt') = mbus_code (ov5647_modes ! b) \<and>
                (which fmt \<noteq> V4L2_SUBDEV_FORMAT_TRY \<longrightarrow> current_mode sd' = b) \<and>
                (\<forall>j<OV5647_NUM_MODES.
                   spec_cost (ov5647_modes ! b) (format fmt)
                     \<le> spec_cost (ov5647_modes ! j) (format fmt)) \<and>
                (\<forall>j<b. spec_cost (ov5647_modes ! b) (format fmt)
                          < spec_cost (ov5647_modes ! j) (format fmt)))"
proof -
  obtain ret sd' cfg' fmt' where
    run: "ov5647_set_fmt subdev_api sd cfg fmt = (ret, sd', cfg', fmt')"
    by (cases "ov5647_set_fmt subdev_api sd cfg fmt") auto
  let ?b = "find_best_mode (format fmt)"
  have "?b < OV5647_NUM_MODES"
    using find_best_mode_min(1) by (simp add: OV5647_NUM_MODES_def)
  moreover note set_fmt_result[OF run] find_best_mode_spec_min[OF assms]
  ultimately have "\<exists>b<OV5647_NUM_MODES.
                mf_width (format fmt') = width (ov5647_modes ! b) \<and>
                mf_height (format fmt') = height (ov5647_modes ! b) \<and>
                mf_code (format fmt') = mbus_code (ov5647_modes ! b) \<and>
                (which fmt \<noteq> V4L2_SUBDEV_FORMAT_TRY \<longrightarrow> current_mode sd' = b) \<and>
                (\<forall>j<OV5647_NUM_MODES.
                   spec_cost (ov5647_modes ! b) (format fmt)
                     \<le> spec_cost (ov5647_modes ! j) (format fmt)) \<and>
                (\<forall>j<b. spec_cost (ov5647_modes ! b) (format fmt)
                          < spec_cost (ov5647_modes ! j) (format fmt))"
    unfolding OV5647_NUM_MODES_def by blast
  then show ?thesis by (simp add: run)
qed

lemmas eval_fmt = find_best_mode_def ov5647_modes_def request_def mode_diff_def abs_s32_def
      word_sless_alt spec_cost_def dimension_distance_def MEDIA_BUS_FMT_SBGGR8_1X8_def
      MEDIA_BUS_FMT_SBGGR10_1X10_def LARGE_PENALTY_def Let_def

text \<open>
  The request of the specification's example, 641 by 479 in the 8-bit format, selects
  entry 0, 640 by 480.
\<close>

theorem set_fmt_first_minimum_witness:
  "request_in_range (format \<lparr>which = V4L2_SUBDEV_FORMAT_ACTIVE, pad = 0,
       format = request 641 479 MEDIA_BUS_FMT_SBGGR8_1X8\<rparr>) \<and>
   (case ov5647_set_fmt True sensor_off (request 0 0 0)
           \<lparr>which = V4L2_SUBDEV_FORMAT_ACTIVE, pad = 0,
            format = request 641 479 MEDIA_BUS_FMT_SBGGR8_1X8\<rparr> of
      (ret, sd', cfg', fmt') \<Rightarrow>
        mf_width (format fmt') = 640 \<and> mf_height (format fmt') = 480 \<and>
        mf_code (format fmt') = MEDIA_BUS_FMT_SBGGR8_1X8 \<and> current_mode sd' = 0)"
proof -
  let ?fmt = "\<lparr>which = V4L2_SUBDEV_FORMAT_ACTIVE, pad = 0,
       format = request 641 479 MEDIA_BUS_FMT_SBGGR8_1X8\<rparr>"
  have r: "request_in_range (format ?fmt)"
    by (simp add: request_in_range_def request_def)
  have b: "find_best_mode (request 641 479 MEDIA_BUS_FMT_SBGGR8_1X8) = 0"
    by (simp add: eval_fmt)
  from set_fmt_first_minimum[OF r, of True sensor_off "request 0 0 0"] r b
  show ?thesis
    by (simp add: ov5647_set_fmt_def Let_def ov5647_modes_def
        V4L2_SUBDEV_FORMAT_ACTIVE_def V4L2_SUBDEV_FORMAT_TRY_def)
qed

text \<open>
  Claim C1 as stated, for every request, fails: the driver reads the requested sizes
  as \<open>int\<close>, so a request of \<open>0xFFFFFFFF\<close> by \<open>0xFFFFFFFF\<close> counts as \<open>-1\<close> by
  \<open>-1\<close> and selects entry 0, while the cost of the specification is smaller at entry 5.
\<close>

theorem set_fmt_wrapped_cost_counterexample:
  "current_mode (fst (snd (ov5647_set_fmt True sensor_off (request 0 0 0)
      \<lparr>which = V4L2_SUBDEV_FORMAT_ACTIVE, pad = 0,
       format = request 0xFFFFFFFF 0xFFFFFFFF MEDIA_BUS_FMT_SBGGR8_1X8\<rparr>))) = 0 \<and>
   mf_width (format (snd (snd (snd (ov5647_set_fmt True sensor_off (request 0 0 0)
      \<lparr>which = V4L2_SUBDEV_FORMAT_ACTIVE, pad = 0,
       format = request 0xFFFFFFFF 0xFFFFFFFF MEDIA_BUS_FMT_SBGGR8_1X8\<rparr>))))) = 640 \<and>
   spec_cost (ov5647_modes ! 5) (request 0xFFFFFFFF 0xFFFFFFFF MEDIA_BUS_FMT_SBGGR8_1X8)
   < spec_cost (ov5647_modes ! 0) (request 0xFFFFFFFF 0xFFFFFFFF MEDIA_BUS_FMT_SBGGR8_1X8)"
  by (simp add: ov5647_set_fmt_def eval_fmt V4L2_SUBDEV_FORMAT_ACTIVE_def
      V4L2_SUBDEV_FORMAT_TRY_def)

lemma triangle:
  "dimension_distance m' f \<le> dimension_distance m f + mode_distance m m'"
  unfolding dimension_distance_def mode_distance_def by arith

text \<open>
  Claim C2, as amended. The penalty exceeds the distance between any two entries of the
  table. Hence, for every request in the range of claim C1 whose format code is the code
  of some entry, the format code handed back is the requested one.
\<close>

theorem format_match_preferred:
  assumes r: "request_in_range (format fmt)"
    and j: "j < OV5647_NUM_MODES" "mbus_code (ov5647_modes ! j) = mf_code (format fmt)"
  shows "(\<forall>i<OV5647_NUM_MODES. \<forall>k<OV5647_NUM_MODES.
            mode_distance (ov5647_modes ! i) (ov5647_modes ! k) < LARGE_PENALTY) \<and>
         (case ov5647_set_fmt subdev_api sd cfg fmt of
            (ret, sd', cfg', fmt') \<Rightarrow> mf_code (format fmt') = mf_code (format fmt))"
proof -
  let ?f = "format fmt"
  let ?b = "find_best_mode ?f"
  have close: "mode_distance (ov5647_modes ! i) (ov5647_modes ! k) < LARGE_PENALTY"
    if "i < OV5647_NUM_MODES" "k < OV5647_NUM_MODES" for i k
  proof -
    have "ov5647_modes ! i \<in> set ov5647_modes" "ov5647_modes ! k \<in> set ov5647_modes"
      using that by (simp_all add: OV5647_NUM_MODES_def)
    then have "mode_distance (ov5647_modes ! i) (ov5647_modes ! k) \<le> 3416"
      by (rule modes_close)
    then show ?thesis by (simp add: LARGE_PENALTY_def)
  qed
  have b: "?b < OV5647_NUM_MODES"
    using find_best_mode_min(1) by (simp add: OV5647_NUM_MODES_def)
  have code: "mbus_code (ov5647_modes ! ?b) = mf_code ?f"
  proof (rule ccontr)
    assume ne: "mbus_code (ov5647_modes ! ?b) \<noteq> mf_code ?f"
    have "spec_cost (ov5647_modes ! ?b) ?f \<le> spec_cost (ov5647_modes ! j) ?f"
      using find_best_mode_spec_min(1)[OF r] j(1) by (simp add: OV5647_NUM_MODES_def)
    moreover have "spec_cost (ov5647_modes ! j) ?f = dimension_distance (ov5647_modes ! j) ?f"
      using j(2) by (simp add: spec_cost_def)
    moreover have "spec_cost (ov5647_modes ! ?b) ?f
        = dimension_distance (ov5647_modes ! ?b) ?f + LARGE_PENALTY"
      using ne by (simp add: spec_cost_def)
    moreover have "dimension_distance (ov5647_modes ! j) ?f
        \<le> dimension_distance (ov5647_modes ! ?b) ?f
           + mode_distance (ov5647_modes ! ?b) (ov5647_modes ! j)"
      by (rule triangle)
    moreover note close[OF b j(1)]
    ultimately show False by linarith
  qed
  obtain ret sd' cfg' fmt' where
    run: "ov5647_set_fmt subdev_api sd cfg fmt = (ret, sd', cfg', fmt')"
    by (cases "ov5647_set_fmt subdev_api sd cfg fmt") auto
  have "mf_code (format fmt') = mf_code ?f"
    using set_fmt_result[OF run] code by simp
  then show ?thesis using close by (simp add: run)
qed

text \<open>
  A request of 1920 by 1080 in the 8-bit format: the only entry of that size is 10-bit,
  and the format handed back is the 8-bit one.
\<close>

theorem format_match_preferred_witness:
  "request_in_range (format \<lparr>which = V4L2_SUBDEV_FORMAT_TRY, pad = 0,
       format = request 1920 1080 MEDIA_BUS_FMT_SBGGR8_1X8\<rparr>) \<and>
   (0::nat) < OV5647_NUM_MODES \<and>
   mbus_code (ov5647_modes ! 0) = MEDIA_BUS_FMT_SBGGR8_1X8 \<and>
   (case ov5647_set_fmt True sensor_off (request 0 0 0)
           \<lparr>which = V4L2_SUBDEV_FORMAT_TRY, pad = 0,
            format = request 1920 1080 MEDIA_BUS_FMT_SBGGR8_1X8\<rparr> of
      (ret, sd', cfg', fmt') \<Rightarrow> mf_code (format fmt') = MEDIA_BUS_FMT_SBGGR8_1X8)"
proof -
  let ?fmt = "\<lparr>which = V4L2_SUBDEV_FORMAT_TRY, pad = 0,
       format = request 1920 1080 MEDIA_BUS_FMT_SBGGR8_1X8\<rparr>"
  have r: "request_in_range (format ?fmt)"
    by (simp add: request_in_range_def request_def)
  have n: "(0::nat) < OV5647_NUM_MODES"
    by (simp add: OV5647_NUM_MODES_def ov5647_modes_def)
  have c: "mbus_code (ov5647_modes ! 0) = mf_code (format ?fmt)"
    by (simp add: ov5647_modes_def request_def)
  from format_match_preferred[OF r n c, of True sensor_off "request 0 0 0"]
  have "case ov5647_set_fmt True sensor_off (request 0 0 0) ?fmt of
      (ret, sd', cfg', fmt') \<Rightarrow> mf_code (format fmt') = mf_code (format ?fmt)"
    by (rule conjunct2)
  then show ?thesis using r n c by (simp add: request_def)
qed

text \<open>
  Claim C2 as stated fails. The penalty does not exceed every distance between an entry
  and a request: at 20000 by 20000 the nearest entry is further away than 10000. And
  with the sizes \<open>0x7FFFFFFF\<close> the 32-bit sum wraps once the penalty is added, so that
  the 10-bit entry 4 is selected for an 8-bit request although entry 5 is 8-bit.
\<close>

theorem penalty_counterexample:
  "LARGE_PENALTY
     < dimension_distance (ov5647_modes ! 5) (request 20000 20000 MEDIA_BUS_FMT_SBGGR8_1X8) \<and>
   current_mode (fst (snd (ov5647_set_fmt True sensor_off (request 0 0 0)
      \<lparr>which = V4L2_SUBDEV_FORMAT_ACTIVE, pad = 0,
       format = request 0x7FFFFFFF 0x7FFFFFFF MEDIA_BUS_FMT_SBGGR8_1X8\<rparr>))) = 4 \<and>
   mf_code (format (snd (snd (snd (ov5647_set_fmt True sensor_off (request 0 0 0)
      \<lparr>which = V4L2_SUBDEV_FORMAT_ACTIVE, pad = 0,
       format = request 0x7FFFFFFF 0x7FFFFFFF MEDIA_BUS_FMT_SBGGR8_1X8\<rparr>)))))
     = MEDIA_BUS_FMT_SBGGR10_1X10 \<and>
   MEDIA_BUS_FMT_SBGGR10_1X10 \<noteq> MEDIA_BUS_FMT_SBGGR8_1X8 \<and>
   mbus_code (ov5647_modes ! 5) = MEDIA_BUS_FMT_SBGGR8_1X8"
  by (simp add: ov5647_set_fmt_def eval_fmt V4L2_SUBDEV_FORMAT_ACTIVE_def
      V4L2_SUBDEV_FORMAT_TRY_def)

text \<open>
  Claim C10. \<open>ov5647_set_fmt\<close> returns 0 on every input, the width, height and format
  code it hands back are those of one of the six table entries, and a TRY call leaves
  the driver state as it was.
\<close>

theorem set_fmt_total:
  "case ov5647_set_fmt subdev_api sd cfg fmt of
     (ret, sd', cfg', fmt') \<Rightarrow>
       ret = 0 \<and>
       (\<exists>b<6. OV5647_NUM_MODES = 6 \<and>
          mf_width (format fmt') = width (ov5647_modes ! b) \<and>
          mf_height (format fmt') = height (ov5647_modes ! b) \<and>
          mf_code (format fmt') = mbus_code (ov5647_modes ! b)) \<and>
       (which fmt = V4L2_SUBDEV_FORMAT_TRY \<longrightarrow>
          sd' = sd \<and> current_mode sd' = current_mode sd \<and>
          st_width sd' = st_width sd \<and> st_height sd' = st_height sd)"
proof -
  obtain ret sd' cfg' fmt' where
    run: "ov5647_set_fmt subdev_api sd cfg fmt = (ret, sd', cfg', fmt')"
    by (cases "ov5647_set_fmt subdev_api sd cfg fmt") auto
  have "find_best_mode (format fmt) < 6"
    using find_best_mode_min(1)[of "format fmt"] modes_length by simp
  then show ?thesis
    using set_fmt_result[OF run] modes_length
    by (auto simp: run OV5647_NUM_MODES_def)
qed

text \<open>
  A TRY call on a powered-off sensor.
\<close>

theorem set_fmt_total_witness:
  "which \<lparr>which = V4L2_SUBDEV_FORMAT_TRY, pad = 0,
          format = request 3000 2000 MEDIA_BUS_FMT_SBGGR10_1X10\<rparr> = V4L2_SUBDEV_FORMAT_TRY \<and>
   (case ov5647_set_fmt True sensor_off (request 0 0 0)
           \<lparr>which = V4L2_SUBDEV_FORMAT_TRY, pad = 0,
            format = request 3000 2000 MEDIA_BUS_FMT_SBGGR10_1X10\<rparr> of
      (ret, sd', cfg', fmt') \<Rightarrow> ret = 0 \<and> sd' = sensor_off)"
  using set_fmt_total[where subdev_api = True and sd = sensor_off and cfg = "request 0 0 0"
      and fmt = "\<lparr>which = V4L2_SUBDEV_FORMAT_TRY, pad = 0,
        format = request 3000 2000 MEDIA_BUS_FMT_SBGGR10_1X10\<rparr>"]
  by (auto split: prod.splits)

section \<open>Transport, controls and streaming: properties\<close>

lemma reg_addr_split: "reg_addr (ucast (drop_bit 8 reg)) (ucast (reg AND 0xff)) = reg"
proof -
  have m: "(0xff :: u16) = mask 8" by (simp add: mask_eq_exp_minus_1)
  show ?thesis
    unfolding reg_addr_def m
    by (rule bit_word_eqI) (auto simp: bit_simps not_le)
qed

lemma next_result_ok: "faults s = [] \<Longrightarrow> next_result s = (0, s)"
  by (simp add: next_result_def)

lemma ov5647_write_ok:
  "faults s = [] \<Longrightarrow>
     ov5647_write s reg val =
       (3, s\<lparr>regs := (regs s)(reg := val), reg_ptr := reg,
             trace := trace s @ [reg_write reg val]\<rparr>)"
  by (simp add: ov5647_write_def i2c_master_send_def next_result_def emit_def
      sensor_receive_def reg_addr_split reg_write_def)

lemma ov5647_read_ok:
  "faults s = [] \<Longrightarrow>
     ov5647_read s reg =
       (1, regs s reg, s\<lparr>reg_ptr := reg, trace := trace s @ reg_read reg\<rparr>)"
  by (simp add: ov5647_read_def i2c_master_send_def i2c_master_recv_def next_result_def
      emit_def sensor_receive_def reg_addr_split reg_read_def)

text \<open>
  Claim C7. With the power counter at zero, applying any control (auto white balance,
  auto gain, auto exposure, exposure, gain, or any other identifier) returns 0 and leaves
  the whole state as it was; in particular nothing is added to the record of calls, so
  no register is read or written.
\<close>

theorem s_ctrl_powered_off: "power_count sensor = 0 \<Longrightarrow> ov5647_s_ctrl sensor ctrl = (0, sensor)"
  by (simp add: ov5647_s_ctrl_def)

lemma stream_off_ok:
  assumes "faults sd = []"
  shows "ov5647_stream_off sd =
     (3, sd\<lparr>regs := (regs sd)(OV5647_REG_MIPI_CTRL00 := 0x25,
                OV5647_REG_FRAME_OFF_NUMBER := 0x0f, OV5640_REG_PAD_OUT := 0x01),
             reg_ptr := OV5640_REG_PAD_OUT,
             trace := trace sd @ [reg_write OV5647_REG_MIPI_CTRL00 0x25,
                reg_write OV5647_REG_FRAME_OFF_NUMBER 0x0f,
                reg_write OV5640_REG_PAD_OUT 0x01]\<rparr>)"
  using assms
  by (simp add: ov5647_stream_off_def ov5647_write_ok MIPI_CTRL00_CLOCK_LANE_GATE_def
      MIPI_CTRL00_BUS_IDLE_def MIPI_CTRL00_CLOCK_LANE_DISABLE_def BIT_def)

lemma stream_on_ok:
  assumes "faults sd = []"
  shows "ov5647_stream_on sd =
     (3, sd\<lparr>regs := (regs sd)(OV5647_REG_MIPI_CTRL00 := 0x14,
                OV5647_REG_FRAME_OFF_NUMBER := 0x00, OV5640_REG_PAD_OUT := 0x00),
             reg_ptr := OV5640_REG_PAD_OUT,
             trace := trace sd @ reg_read OV5647_REG_MIPI_CTRL00 @
               [reg_write OV5647_REG_MIPI_CTRL00 0x14,
                reg_write OV5647_REG_FRAME_OFF_NUMBER 0x00,
                reg_write OV5640_REG_PAD_OUT 0x00]\<rparr>)"
  using assms
  by (simp add: ov5647_stream_on_def ov5647_write_ok ov5647_read_ok
      MIPI_CTRL00_LINE_SYNC_ENABLE_def MIPI_CTRL00_BUS_IDLE_def BIT_def)

lemma small_uint:
  fixes v :: "32 word"
  assumes "0 \<le> sint v" "sint v \<le> 65535"
  shows "uint v = sint v"
proof -
  have "sint v < 2 ^ 32" using assms(2) by simp
  then have "take_bit 32 (sint v) = sint v"
    using assms(1) by (simp add: take_bit_int_eq_self)
  then show ?thesis by (simp add: uint_sint)
qed

lemma small_bits:
  fixes v :: "32 word"
  assumes "0 \<le> sint v" "sint v \<le> 65535"
  shows "bit v k \<Longrightarrow> k < 16"
proof -
  assume b: "bit v k"
  have "uint v < 2 ^ 16" using small_uint[OF assms] assms(2) by simp
  then have "take_bit 16 (uint v) = uint v" by (simp add: take_bit_int_eq_self)
  then have "take_bit 16 v = v" by (simp add: word_uint_eqI unsigned_take_bit_eq)
  then have "bit (take_bit 16 v) k" using b by simp
  then show ?thesis by (simp add: bit_take_bit_iff)
qed

lemma sdrop:
  fixes v :: "32 word"
  assumes "\<And>k. bit v k \<Longrightarrow> k < 16"
  shows "signed_drop_bit n v = drop_bit n v"
proof (rule bit_word_eqI)
  fix k assume "k < LENGTH(32)"
  have "\<not> bit v 31" using assms[of 31] by auto
  then show "bit (signed_drop_bit n v) k = bit (drop_bit n v) k"
    using assms[of "n + k"] by (auto simp: bit_signed_drop_bit_iff bit_drop_bit_eq)
qed

lemma bit_0x0f: "bit (0x0f :: 32 word) n \<longleftrightarrow> n < 4"
proof -
  have "(0x0f :: 32 word) = mask 4" by (simp add: mask_eq_exp_minus_1)
  then show ?thesis by (simp only: bit_mask_iff) auto
qed

lemma bit_0xff: "bit (0xff :: 32 word) n \<longleftrightarrow> n < 8"
proof -
  have "(0xff :: 32 word) = mask 8" by (simp add: mask_eq_exp_minus_1)
  then show ?thesis by (simp only: bit_mask_iff) auto
qed

lemma bit_0x03: "bit (0x03 :: 32 word) n \<longleftrightarrow> n < 2"
proof -
  have "(0x03 :: 32 word) = mask 2" by (simp add: mask_eq_exp_minus_1)
  then show ?thesis by (simp only: bit_mask_iff) auto
qed

lemma bit_0xf0: "bit (0xf0 :: 32 word) n \<longleftrightarrow> 4 \<le> n \<and> n < 8"
proof -
  have "(0xf0 :: 32 word) = push_bit 4 (mask 4)"
    by (simp add: mask_eq_exp_minus_1 push_bit_eq_mult)
  then show ?thesis by (simp only: bit_push_bit_iff bit_mask_iff) auto
qed

lemma bit_int_0x0f: "bit (0x0f :: int) n \<longleftrightarrow> n < 4"
proof -
  have "(0x0f :: int) = mask 4" by (simp add: mask_eq_exp_minus_1)
  then show ?thesis by (simp only: bit_mask_iff) auto
qed

lemma bit_int_0xff: "bit (0xff :: int) n \<longleftrightarrow> n < 8"
proof -
  have "(0xff :: int) = mask 8" by (simp add: mask_eq_exp_minus_1)
  then show ?thesis by (simp only: bit_mask_iff) auto
qed

lemma bit_int_0x03: "bit (0x03 :: int) n \<longleftrightarrow> n < 2"
proof -
  have "(0x03 :: int) = mask 2" by (simp add: mask_eq_exp_minus_1)
  then show ?thesis by (simp only: bit_mask_iff) auto
qed

lemma bit_int_0xf0: "bit (0xf0 :: int) n \<longleftrightarrow> 4 \<le> n \<and> n < 8"
proof -
  have "(0xf0 :: int) = push_bit 4 (mask 4)"
    by (simp add: mask_eq_exp_minus_1 push_bit_eq_mult)
  then show ?thesis by (simp only: bit_push_bit_iff bit_mask_iff) auto
qed

lemmas bit_consts = bit_0x0f bit_0xff bit_0x03 bit_0xf0 bit_int_0x0f bit_int_0xff bit_int_0x03 bit_int_0xf0

lemma exposure_roundtrip:
  fixes v :: "32 word"
  assumes "\<And>k. bit v k \<Longrightarrow> k < 16"
  shows "push_bit 12 (ucast (ucast (drop_bit 12 v AND 0x0f) :: 8 word))
         OR push_bit 4 (ucast (ucast (drop_bit 4 v AND 0xff) :: 8 word))
         OR drop_bit 4 (ucast (ucast (push_bit 4 v AND 0xf0) :: 8 word)) = v" (is "?lhs = v")
proof (rule bit_word_eqI)
  fix n assume n: "n < LENGTH(32)"
  consider "n < 4" | "4 \<le> n" "n < 12" | "12 \<le> n" by linarith
  then show "bit ?lhs n = bit v n"
  proof cases
    case 1
    then show ?thesis
      using n assms[of n] by (auto simp: bit_simps bit_consts not_le not_less)
  next
    case 2
    then have "4 + (n - 4) = n" by simp
    then show ?thesis
      using 2 n assms[of n] by (auto simp: bit_simps bit_consts not_le not_less)
  next
    case 3
    then have "12 + (n - 12) = n" "4 + (n - 4) = n" by simp_all
    then show ?thesis
      using 3 n assms[of n] by (auto simp: bit_simps bit_consts not_le not_less)
  qed
qed

lemma gain_roundtrip:
  fixes v :: "32 word"
  assumes "\<And>k. bit v k \<Longrightarrow> k < 10"
  shows "push_bit 8 (ucast (ucast (drop_bit 8 v AND 0x03) :: 8 word))
         OR ucast (ucast (v AND 0xff) :: 8 word) = v" (is "?lhs = v")
proof (rule bit_word_eqI)
  fix n assume "n < LENGTH(32)"
  then show "bit ?lhs n = bit v n"
    using assms[of n] by (auto simp: bit_simps bit_consts not_le not_less)
qed


text \<open>
  The exposure control on the powered-off sample sensor.
\<close>

theorem s_ctrl_powered_off_witness:
  "power_count sensor_off = 0 \<and>
   ov5647_s_ctrl sensor_off \<lparr>ctrl_id = V4L2_CID_EXPOSURE, ctrl_val = 0x1234\<rparr>
     = (0, sensor_off)"
  using s_ctrl_powered_off[of sensor_off "\<lparr>ctrl_id = V4L2_CID_EXPOSURE, ctrl_val = 0x1234\<rparr>"]
  by (simp add: sensor_off_def)

text \<open>
  Claim C8. When no transfer fails, stopping the stream writes, in this order, the MIPI
  control register with the clock-lane gate and bus-idle bits (and the lane-disable
  bit), the frame-off number \<open>0x0f\<close>, its largest value, and the pad-output register
  with the disable bit. Starting the stream and stopping it right after leaves the
  pad-disable bit set and the frame-off number at \<open>0x0f\<close>.
\<close>

theorem stream_off_order:
  assumes "faults sd = []" and "enable \<noteq> 0"
  shows "(case ov5647_s_stream sd 0 of
            (ret, s') \<Rightarrow> 0 \<le> ret \<and>
              trace s' = trace sd @
                [reg_write OV5647_REG_MIPI_CTRL00
                   (MIPI_CTRL00_CLOCK_LANE_GATE OR MIPI_CTRL00_BUS_IDLE
                    OR MIPI_CTRL00_CLOCK_LANE_DISABLE),
                 reg_write OV5647_REG_FRAME_OFF_NUMBER 0x0f,
                 reg_write OV5640_REG_PAD_OUT 0x01]) \<and>
         (case ov5647_s_stream sd enable of
            (r1, s1) \<Rightarrow>
              (case ov5647_s_stream s1 0 of
                 (r2, s2) \<Rightarrow> 0 \<le> r1 \<and> 0 \<le> r2 \<and>
                   regs s2 OV5640_REG_PAD_OUT = 0x01 \<and>
                   regs s2 OV5647_REG_FRAME_OFF_NUMBER = 0x0f \<and>
                   regs s2 OV5647_REG_MIPI_CTRL00 =
                     (MIPI_CTRL00_CLOCK_LANE_GATE OR MIPI_CTRL00_BUS_IDLE
                      OR MIPI_CTRL00_CLOCK_LANE_DISABLE)))"
proof -
  have v: "MIPI_CTRL00_CLOCK_LANE_GATE OR MIPI_CTRL00_BUS_IDLE
      OR MIPI_CTRL00_CLOCK_LANE_DISABLE = 0x25"
    by (simp add: MIPI_CTRL00_CLOCK_LANE_GATE_def MIPI_CTRL00_BUS_IDLE_def
        MIPI_CTRL00_CLOCK_LANE_DISABLE_def BIT_def)
  have a: "OV5647_REG_MIPI_CTRL00 \<noteq> OV5647_REG_FRAME_OFF_NUMBER"
    "OV5647_REG_MIPI_CTRL00 \<noteq> OV5640_REG_PAD_OUT"
    "OV5647_REG_FRAME_OFF_NUMBER \<noteq> OV5640_REG_PAD_OUT"
    by (simp_all add: OV5647_REG_MIPI_CTRL00_def OV5647_REG_FRAME_OFF_NUMBER_def
        OV5640_REG_PAD_OUT_def)
  show ?thesis
    using assms a
    by (simp add: ov5647_s_stream_def stream_off_ok stream_on_ok v)
qed

text \<open>
  Start and stop on the powered sample sensor.
\<close>

theorem stream_off_order_witness:
  "faults sensor_on = [] \<and> (1 :: s32) \<noteq> 0 \<and>
   regs (snd (ov5647_s_stream (snd (ov5647_s_stream sensor_on 1)) 0)) OV5640_REG_PAD_OUT = 0x01 \<and>
   regs (snd (ov5647_s_stream (snd (ov5647_s_stream sensor_on 1)) 0))
     OV5647_REG_FRAME_OFF_NUMBER = 0x0f"
proof -
  have f: "faults sensor_on = []" by (simp add: sensor_on_def sensor_off_def)
  have e: "(1 :: s32) \<noteq> 0" by simp
  from stream_off_order[OF f e] f show ?thesis
    by (simp split: prod.splits)
qed

lemma reg_distinct:
  "OV5647_REG_EXPOSURE_HI \<noteq> OV5647_REG_EXPOSURE_MID"
  "OV5647_REG_EXPOSURE_HI \<noteq> OV5647_REG_EXPOSURE_LO"
  "OV5647_REG_EXPOSURE_MID \<noteq> OV5647_REG_EXPOSURE_LO"
  "OV5647_REG_GAIN_HI \<noteq> OV5647_REG_GAIN_LO"
  by (simp_all add: OV5647_REG_EXPOSURE_HI_def OV5647_REG_EXPOSURE_MID_def
      OV5647_REG_EXPOSURE_LO_def OV5647_REG_GAIN_HI_def OV5647_REG_GAIN_LO_def)

lemma s_ctrl_exposure_ok:
  assumes "power_count sensor \<noteq> 0" "faults sensor = []"
  shows "ov5647_s_ctrl sensor \<lparr>ctrl_id = V4L2_CID_EXPOSURE, ctrl_val = v\<rparr> =
     (0, sensor\<lparr>regs := (regs sensor)
              (OV5647_REG_EXPOSURE_HI := ucast (signed_drop_bit 12 v AND 0x0f),
               OV5647_REG_EXPOSURE_MID := ucast (signed_drop_bit 4 v AND 0xff),
               OV5647_REG_EXPOSURE_LO := ucast (push_bit 4 v AND 0xf0)),
            reg_ptr := OV5647_REG_EXPOSURE_LO,
            trace := trace sensor @
              [reg_write OV5647_REG_EXPOSURE_HI (ucast (signed_drop_bit 12 v AND 0x0f)),
               reg_write OV5647_REG_EXPOSURE_MID (ucast (signed_drop_bit 4 v AND 0xff)),
               reg_write OV5647_REG_EXPOSURE_LO (ucast (push_bit 4 v AND 0xf0))]\<rparr>)"
  using assms by (simp add: ov5647_s_ctrl_def ov5647_write_ok)

lemma s_ctrl_gain_ok:
  assumes "power_count sensor \<noteq> 0" "faults sensor = []"
  shows "ov5647_s_ctrl sensor \<lparr>ctrl_id = V4L2_CID_ANALOGUE_GAIN, ctrl_val = v\<rparr> =
     (0, sensor\<lparr>regs := (regs sensor)
              (OV5647_REG_GAIN_HI := ucast (signed_drop_bit 8 v AND 0x03),
               OV5647_REG_GAIN_LO := ucast (v AND 0xff)),
            reg_ptr := OV5647_REG_GAIN_LO,
            trace := trace sensor @
              [reg_write OV5647_REG_GAIN_HI (ucast (signed_drop_bit 8 v AND 0x03)),
               reg_write OV5647_REG_GAIN_LO (ucast (v AND 0xff))]\<rparr>)"
  using assms by (simp add: ov5647_s_ctrl_def ov5647_write_ok)

text \<open>
  Claim C3. On a powered sensor whose transfers succeed, the exposure control with a
  value \<open>v\<close> in \<open>[1, 65535]\<close> writes exactly three registers, high first, with
  \<open>(v >> 12) & 0x0f\<close>, \<open>(v >> 4) & 0xff\<close> and \<open>(v << 4) & 0xf0\<close>, and the three
  registers then give \<open>v\<close> back; the gain control with \<open>g\<close> in \<open>[16, 1023]\<close> writes
  two registers, high first, with \<open>(g >> 8) & 0x03\<close> and \<open>g & 0xff\<close>, which give
  \<open>g\<close> back. Exposure \<open>0x1234\<close> leaves \<open>0x01\<close>, \<open>0x23\<close>, \<open>0x40\<close> and gain
  \<open>0x2AB\<close> leaves \<open>0x02\<close>, \<open>0xAB\<close>.
\<close>

theorem exposure_gain_registers:
  assumes on: "power_count sensor \<noteq> 0" and ok: "faults sensor = []"
  shows
    "(1 \<le> sint v \<and> sint v \<le> 65535 \<longrightarrow>
        (case ov5647_s_ctrl sensor \<lparr>ctrl_id = V4L2_CID_EXPOSURE, ctrl_val = v\<rparr> of
           (ret, s') \<Rightarrow> ret = 0 \<and>
             trace s' = trace sensor @
               [reg_write OV5647_REG_EXPOSURE_HI (ucast (drop_bit 12 v AND 0x0f)),
                reg_write OV5647_REG_EXPOSURE_MID (ucast (drop_bit 4 v AND 0xff)),
                reg_write OV5647_REG_EXPOSURE_LO (ucast (push_bit 4 v AND 0xf0))] \<and>
             push_bit 12 (ucast (regs s' OV5647_REG_EXPOSURE_HI))
               OR push_bit 4 (ucast (regs s' OV5647_REG_EXPOSURE_MID))
               OR drop_bit 4 (ucast (regs s' OV5647_REG_EXPOSURE_LO)) = v)) \<and>
     (16 \<le> sint g \<and> sint g \<le> 1023 \<longrightarrow>
        (case ov5647_s_ctrl sensor \<lparr>ctrl_id = V4L2_CID_ANALOGUE_GAIN, ctrl_val = g\<rparr> of
           (ret, s') \<Rightarrow> ret = 0 \<and>
             trace s' = trace sensor @
               [reg_write OV5647_REG_GAIN_HI (ucast (drop_bit 8 g AND 0x03)),
                reg_write OV5647_REG_GAIN_LO (ucast (g AND 0xff))] \<and>
             push_bit 8 (ucast (regs s' OV5647_REG_GAIN_HI))
               OR ucast (regs s' OV5647_REG_GAIN_LO) = g)) \<and>
     (case ov5647_s_ctrl sensor \<lparr>ctrl_id = V4L2_CID_EXPOSURE, ctrl_val = 0x1234\<rparr> of
        (ret, s') \<Rightarrow>
          regs s' OV5647_REG_EXPOSURE_HI = 0x01 \<and> regs s' OV5647_REG_EXPOSURE_MID = 0x23 \<and>
          regs s' OV5647_REG_EXPOSURE_LO = 0x40) \<and>
     (case ov5647_s_ctrl sensor \<lparr>ctrl_id = V4L2_CID_ANALOGUE_GAIN, ctrl_val = 0x2AB\<rparr> of
        (ret, s') \<Rightarrow>
          regs s' OV5647_REG_GAIN_HI = 0x02 \<and> regs s' OV5647_REG_GAIN_LO = 0xAB)"
proof (intro conjI impI)
  assume r: "1 \<le> sint v \<and> sint v \<le> 65535"
  then have bits: "bit v k \<Longrightarrow> k < 16" for k
    using small_bits[of v k] by simp
  have sd: "signed_drop_bit n v = drop_bit n v" for n
    using bits by (rule sdrop)
  show "case ov5647_s_ctrl sensor \<lparr>ctrl_id = V4L2_CID_EXPOSURE, ctrl_val = v\<rparr> of
           (ret, s') \<Rightarrow> ret = 0 \<and>
             trace s' = trace sensor @
               [reg_write OV5647_REG_EXPOSURE_HI (ucast (drop_bit 12 v AND 0x0f)),
                reg_write OV5647_REG_EXPOSURE_MID (ucast (drop_bit 4 v AND 0xff)),
                reg_write OV5647_REG_EXPOSURE_LO (ucast (push_bit 4 v AND 0xf0))] \<and>
             push_bit 12 (ucast (regs s' OV5647_REG_EXPOSURE_HI))
               OR push_bit 4 (ucast (regs s' OV5647_REG_EXPOSURE_MID))
               OR drop_bit 4 (ucast (regs s' OV5647_REG_EXPOSURE_LO)) = v"
    using exposure_roundtrip[of v, OF bits] reg_distinct
    by (simp add: s_ctrl_exposure_ok[OF on ok] sd)
next
  assume r: "16 \<le> sint g \<and> sint g \<le> 1023"
  then have b16: "bit g k \<Longrightarrow> k < 16" for k
    using small_bits[of g k] by simp
  have sd: "signed_drop_bit n g = drop_bit n g" for n
    using b16 by (rule sdrop)
  have bits: "bit g k \<Longrightarrow> k < 10" for k
  proof -
    assume b: "bit g k"
    have "uint g < 2 ^ 10" using small_uint[of g] r by simp
    then have "take_bit 10 (uint g) = uint g" by (simp add: take_bit_int_eq_self)
    then have "take_bit 10 g = g" by (simp add: word_uint_eqI unsigned_take_bit_eq)
    then have "bit (take_bit 10 g) k" using b by simp
    then show ?thesis by (simp add: bit_take_bit_iff)
  qed
  show "case ov5647_s_ctrl sensor \<lparr>ctrl_id = V4L2_CID_ANALOGUE_GAIN, ctrl_val = g\<rparr> of
           (ret, s') \<Rightarrow> ret = 0 \<and>
             trace s' = trace sensor @
               [reg_write OV5647_REG_GAIN_HI (ucast (drop_bit 8 g AND 0x03)),
                reg_write OV5647_REG_GAIN_LO (ucast (g AND 0xff))] \<and>
             push_bit 8 (ucast (regs s' OV5647_REG_GAIN_HI))
               OR ucast (regs s' OV5647_REG_GAIN_LO) = g"
    using gain_roundtrip[of g, OF bits] reg_distinct
    by (simp add: s_ctrl_gain_ok[OF on ok] sd)
next
  show "case ov5647_s_ctrl sensor \<lparr>ctrl_id = V4L2_CID_EXPOSURE, ctrl_val = 0x1234\<rparr> of
        (ret, s') \<Rightarrow>
          regs s' OV5647_REG_EXPOSURE_HI = 0x01 \<and> regs s' OV5647_REG_EXPOSURE_MID = 0x23 \<and>
          regs s' OV5647_REG_EXPOSURE_LO = 0x40"
    using reg_distinct by (simp add: s_ctrl_exposure_ok[OF on ok])
next
  show "case ov5647_s_ctrl sensor \<lparr>ctrl_id = V4L2_CID_ANALOGUE_GAIN, ctrl_val = 0x2AB\<rparr> of
        (ret, s') \<Rightarrow>
          regs s' OV5647_REG_GAIN_HI = 0x02 \<and> regs s' OV5647_REG_GAIN_LO = 0xAB"
    using reg_distinct by (simp add: s_ctrl_gain_ok[OF on ok])
qed


text \<open>
  The two examples on the powered sample sensor, as the messages sent.
\<close>

theorem exposure_gain_registers_witness:
  "power_count sensor_on \<noteq> 0 \<and> faults sensor_on = [] \<and>
   (1 \<le> sint (0x1234 :: s32) \<and> sint (0x1234 :: s32) \<le> 65535) \<and>
   (16 \<le> sint (0x2AB :: s32) \<and> sint (0x2AB :: s32) \<le> 1023) \<and>
   trace (snd (ov5647_s_ctrl sensor_on \<lparr>ctrl_id = V4L2_CID_EXPOSURE, ctrl_val = 0x1234\<rparr>))
     = [reg_write OV5647_REG_EXPOSURE_HI 0x01, reg_write OV5647_REG_EXPOSURE_MID 0x23,
        reg_write OV5647_REG_EXPOSURE_LO 0x40] \<and>
   trace (snd (ov5647_s_ctrl sensor_on
                 \<lparr>ctrl_id = V4L2_CID_ANALOGUE_GAIN, ctrl_val = 0x2AB\<rparr>))
     = [reg_write OV5647_REG_GAIN_HI 0x02, reg_write OV5647_REG_GAIN_LO 0xAB]"
proof -
  have on: "power_count sensor_on \<noteq> 0" by (simp add: sensor_on_def sensor_off_def)
  have ok: "faults sensor_on = []" by (simp add: sensor_on_def sensor_off_def)
  have tr: "trace sensor_on = []" by (simp add: sensor_on_def sensor_off_def)
  have v: "1 \<le> sint (0x1234 :: s32) \<and> sint (0x1234 :: s32) \<le> 65535" by simp
  have g: "16 \<le> sint (0x2AB :: s32) \<and> sint (0x2AB :: s32) \<le> 1023" by simp
  from exposure_gain_registers[OF on ok, of "0x1234" "0x2AB"] on ok v g tr
  show ?thesis by (simp split: prod.splits)
qed

section \<open>Detection: properties\<close>


lemma bus_only_trace:
  "bus_only s s' \<Longrightarrow> \<exists>evs. trace s' = trace s @ evs \<and> list_all is_i2c evs"
  unfolding bus_only_def by (metis append_take_drop_id)

lemma bus_only_trans:
  assumes "bus_only s s'" "bus_only s' s''"
  shows "bus_only s s''"
proof -
  obtain e1 where e1: "trace s' = trace s @ e1" "list_all is_i2c e1"
    using bus_only_trace[OF assms(1)] by blast
  obtain e2 where e2: "trace s'' = trace s' @ e2" "list_all is_i2c e2"
    using bus_only_trace[OF assms(2)] by blast
  have "trace s'' = trace s @ (e1 @ e2)" "list_all is_i2c (e1 @ e2)"
    using e1 e2 by simp_all
  then have "take (length (trace s)) (trace s'') = trace s"
    "list_all is_i2c (drop (length (trace s)) (trace s''))" by simp_all
  then show ?thesis using assms by (simp add: bus_only_def) blast
qed

lemma bus_only_registered: "bus_only s s' \<Longrightarrow> registered s' = registered s"
proof -
  assume "bus_only s s'"
  then obtain evs where e: "trace s' = trace s @ evs" "list_all is_i2c evs"
    using bus_only_trace by blast
  have "Async_Register_Subdev \<notin> set evs"
    using e(2) by (auto simp: list_all_iff)
  then show ?thesis using e(1) by (simp add: registered_def)
qed

lemma i2c_master_send_gen:
  "i2c_master_send s b = (r, s') \<Longrightarrow>
     bus_only s s' \<and> (r < 0 \<longrightarrow> r \<in> set (faults s) \<and> regs s' = regs s) \<and>
     (\<not> r < 0 \<longrightarrow> regs s' = regs (sensor_receive b s) \<and> reg_ptr s' = reg_ptr (sensor_receive b s))"
  by (auto simp: i2c_master_send_def next_result_def emit_def bus_only_def sensor_receive_def
      split: list.splits if_splits)

lemma i2c_master_recv_gen:
  "i2c_master_recv s = (r, v, s') \<Longrightarrow>
     bus_only s s' \<and> regs s' = regs s \<and> (r < 0 \<longrightarrow> r \<in> set (faults s)) \<and>
     (\<not> r < 0 \<longrightarrow> v = regs s (reg_ptr s))"
  by (auto simp: i2c_master_recv_def next_result_def emit_def bus_only_def
      split: list.splits if_splits)

lemma ov5647_write_gen:
  assumes "ov5647_write s reg val = (r, s')"
  shows "bus_only s s'" and "r < 0 \<Longrightarrow> r \<in> set (faults s)"
    and "r < 0 \<Longrightarrow> regs s' = regs s"
    and "\<not> r < 0 \<Longrightarrow> regs s' = (regs s)(reg := val)"
  using i2c_master_send_gen[OF assms[unfolded ov5647_write_def]]
  by (simp_all add: sensor_receive_def reg_addr_split)

lemma ov5647_read_gen:
  assumes "ov5647_read s reg = (r, v, s')"
  shows "bus_only s s'" and "r < 0 \<Longrightarrow> r \<in> set (faults s)"
    and "regs s' = regs s"
    and "\<not> r < 0 \<Longrightarrow> v = regs s reg"
proof -
  obtain r1 s1 where s: "i2c_master_send s [ucast (drop_bit 8 reg), ucast (reg AND 0xff)] = (r1, s1)"
    by (cases "i2c_master_send s [ucast (drop_bit 8 reg), ucast (reg AND 0xff)]") auto
  note g1 = i2c_master_send_gen[OF s]
  have all: "bus_only s s' \<and> (r < 0 \<longrightarrow> r \<in> set (faults s)) \<and> regs s' = regs s \<and>
     (\<not> r < 0 \<longrightarrow> v = regs s reg)"
  proof (cases "r1 < 0")
    case True
    then show ?thesis using assms s g1 by (simp add: ov5647_read_def)
  next
    case False
    then have rc: "i2c_master_recv s1 = (r, v, s')"
      using assms s by (simp add: ov5647_read_def)
    note g2 = i2c_master_recv_gen[OF rc]
    have "bus_only s s'" using g1 g2 bus_only_trans by blast
    moreover have "set (faults s1) \<subseteq> set (faults s)" using g1 by (simp add: bus_only_def)
    ultimately show ?thesis
      using False g1 g2 by (auto simp: sensor_receive_def reg_addr_split)
  qed
  then show "bus_only s s'" and "r < 0 \<Longrightarrow> r \<in> set (faults s)"
    and "regs s' = regs s" and "\<not> r < 0 \<Longrightarrow> v = regs s reg" by simp_all
qed


lemma id_regs_distinct:
  "OV5647_SW_RESET \<noteq> OV5647_REG_CHIPID_H" "OV5647_SW_RESET \<noteq> OV5647_REG_CHIPID_L"
  "OV5647_REG_CHIPID_H \<noteq> OV5647_REG_CHIPID_L"
  by (simp_all add: OV5647_SW_RESET_def OV5647_REG_CHIPID_H_def OV5647_REG_CHIPID_L_def)

lemma detect_ok:
  assumes "faults sd = []"
  shows "ov5647_detect sd =
     (if regs sd OV5647_REG_CHIPID_H \<noteq> 0x56 then
        (- ENODEV, sd\<lparr>regs := (regs sd)(OV5647_SW_RESET := 0x01),
                       reg_ptr := OV5647_REG_CHIPID_H,
                       trace := trace sd @ [reg_write OV5647_SW_RESET 0x01]
                                @ reg_read OV5647_REG_CHIPID_H\<rparr>)
      else if regs sd OV5647_REG_CHIPID_L \<noteq> 0x47 then
        (- ENODEV, sd\<lparr>regs := (regs sd)(OV5647_SW_RESET := 0x01),
                       reg_ptr := OV5647_REG_CHIPID_L,
                       trace := trace sd @ [reg_write OV5647_SW_RESET 0x01]
                                @ reg_read OV5647_REG_CHIPID_H
                                @ reg_read OV5647_REG_CHIPID_L\<rparr>)
      else
        (3, sd\<lparr>regs := (regs sd)(OV5647_SW_RESET := 0x00),
                 reg_ptr := OV5647_SW_RESET,
                 trace := trace sd @ [reg_write OV5647_SW_RESET 0x01]
                          @ reg_read OV5647_REG_CHIPID_H
                          @ reg_read OV5647_REG_CHIPID_L
                          @ [reg_write OV5647_SW_RESET 0x00]\<rparr>))"
  using assms id_regs_distinct
  by (simp add: ov5647_detect_def ov5647_write_ok ov5647_read_ok)

lemma detect_gen:
  assumes "ov5647_detect sd = (r, s')"
  shows "bus_only sd s'"
    and "\<not> r < 0 \<Longrightarrow> regs sd OV5647_REG_CHIPID_H = 0x56 \<and> regs sd OV5647_REG_CHIPID_L = 0x47"
proof -
  obtain r1 s1 where w1: "ov5647_write sd OV5647_SW_RESET 0x01 = (r1, s1)"
    by (cases "ov5647_write sd OV5647_SW_RESET 0x01") auto
  note g1 = ov5647_write_gen[OF w1]
  obtain r2 v2 s2 where rd2: "ov5647_read s1 OV5647_REG_CHIPID_H = (r2, v2, s2)"
    by (cases "ov5647_read s1 OV5647_REG_CHIPID_H") auto
  note g2 = ov5647_read_gen[OF rd2]
  obtain r3 v3 s3 where rd3: "ov5647_read s2 OV5647_REG_CHIPID_L = (r3, v3, s3)"
    by (cases "ov5647_read s2 OV5647_REG_CHIPID_L") auto
  note g3 = ov5647_read_gen[OF rd3]
  obtain r4 s4 where w4: "ov5647_write s3 OV5647_SW_RESET 0x00 = (r4, s4)"
    by (cases "ov5647_write s3 OV5647_SW_RESET 0x00") auto
  note g4 = ov5647_write_gen[OF w4]
  have b2: "bus_only sd s2" using g1(1) g2(1) by (rule bus_only_trans)
  have b3: "bus_only sd s3" using b2 g3(1) by (rule bus_only_trans)
  have b4: "bus_only sd s4" using b3 g4(1) by (rule bus_only_trans)
  have h: "\<not> r1 < 0 \<Longrightarrow> regs s1 OV5647_REG_CHIPID_H = regs sd OV5647_REG_CHIPID_H \<and>
      regs s1 OV5647_REG_CHIPID_L = regs sd OV5647_REG_CHIPID_L"
    using g1(4) id_regs_distinct by simp
  have "bus_only sd s' \<and>
    (\<not> r < 0 \<longrightarrow> regs sd OV5647_REG_CHIPID_H = 0x56 \<and> regs sd OV5647_REG_CHIPID_L = 0x47)"
    using assms w1 rd2 rd3 w4 g1(1) b2 b3 b4 h g2(3,4) g3(3,4)
    by (auto simp: ov5647_detect_def ENODEV_def split: if_splits)
  then show "bus_only sd s'"
    and "\<not> r < 0 \<Longrightarrow> regs sd OV5647_REG_CHIPID_H = 0x56 \<and> regs sd OV5647_REG_CHIPID_L = 0x47"
    by simp_all
qed

lemma registered_emit:
  "registered (emit e s) \<longleftrightarrow> e = Async_Register_Subdev \<or> registered s"
  by (auto simp: registered_def emit_def)

lemma regs_emit: "regs (emit e s) = regs s"
  by (simp add: emit_def)

lemma clk_prepare_enable_gen:
  "clk_prepare_enable s = (r, s') \<Longrightarrow>
     registered s' = registered s \<and> regs s' = regs s \<and>
     power_count s' = power_count s \<and> set (faults s') \<subseteq> set (faults s) \<and>
     (r < 0 \<longrightarrow> r \<in> set (faults s) \<and> xclk s' = xclk s) \<and>
     (\<not> r < 0 \<longrightarrow> r = 0 \<and> xclk s')"
  by (auto simp: clk_prepare_enable_def next_result_def emit_def registered_def
      split: list.splits if_splits)

lemma reset_gpio_set_gen:
  "registered (reset_gpio_set v s) = registered s \<and> regs (reset_gpio_set v s) = regs s \<and>
   power_count (reset_gpio_set v s) = power_count s \<and> xclk (reset_gpio_set v s) = xclk s \<and>
   faults (reset_gpio_set v s) = faults s"
  by (auto simp: reset_gpio_set_def emit_def registered_def split: option.splits)

lemma clk_disable_unprepare_gen:
  "registered (clk_disable_unprepare s) = registered s \<and>
   regs (clk_disable_unprepare s) = regs s \<and>
   power_count (clk_disable_unprepare s) = power_count s \<and>
   \<not> xclk (clk_disable_unprepare s) \<and> faults (clk_disable_unprepare s) = faults s"
  by (auto simp: clk_disable_unprepare_def emit_def registered_def)

lemma power_on_gen:
  "ov5647_power_on s = (r, s') \<Longrightarrow> registered s' = registered s \<and> regs s' = regs s"
  using clk_prepare_enable_gen[of s] reset_gpio_set_gen
  by (auto simp: ov5647_power_on_def split: prod.splits if_splits)

lemma power_off_gen:
  "registered (ov5647_power_off s) = registered s"
  using clk_disable_unprepare_gen reset_gpio_set_gen by (simp add: ov5647_power_off_def)

lemma init_controls_gen:
  "ov5647_init_controls p s = (r, s') \<Longrightarrow> registered s' = registered s \<and> regs s' = regs s"
  by (auto simp: ov5647_init_controls_def registered_emit regs_emit split: if_splits)

lemma probe_mismatch:
  assumes nr: "\<not> registered hw"
    and bad: "regs hw OV5647_REG_CHIPID_H \<noteq> 0x56 \<or> regs hw OV5647_REG_CHIPID_L \<noteq> 0x47"
    and run: "ov5647_probe p hw = (r, s')"
  shows "r \<noteq> 0 \<and> \<not> registered s'"
proof -
  let ?s0 = "hw\<lparr>st_width := 0, st_height := 0, power_count := 0, current_mode := 0,
                       reset_gpio := None\<rparr>"
  let ?s0' = "?s0\<lparr>reset_gpio :=
                     (case reset_lookup p of Gpio_Present \<Rightarrow> Some True | _ \<Rightarrow> None)\<rparr>"
  have s0: "\<not> registered ?s0" "\<not> registered ?s0'" "regs ?s0' = regs hw"
    using nr by (simp_all add: registered_def)
  obtain r1 s1 where ic: "ov5647_init_controls p ?s0' = (r1, s1)"
    by (cases "ov5647_init_controls p ?s0'") auto
  have s1: "\<not> registered s1" "regs s1 = regs hw"
    using init_controls_gen[OF ic] s0 by simp_all
  obtain r2 s2 where po: "ov5647_power_on s1 = (r2, s2)"
    by (cases "ov5647_power_on s1") auto
  have s2: "\<not> registered s2" "regs s2 = regs hw"
    using power_on_gen[OF po] s1 by simp_all
  obtain r3 s3 where dt: "ov5647_detect s2 = (r3, s3)"
    by (cases "ov5647_detect s2") auto
  have s3: "\<not> registered s3" "r3 < 0"
    using detect_gen[OF dt] bus_only_registered[of s2 s3] s2 bad by auto
  show ?thesis
    using run nr s0 ic s1 po s2 dt s3
    by (auto simp: ov5647_probe_def Let_def registered_emit power_off_gen ENOMEM_def
        EINVAL_def split: if_splits)
qed


lemma clk_prepare_enable_ok:
  "faults s = [] \<Longrightarrow>
     clk_prepare_enable s = (0, s\<lparr>xclk := True, trace := trace s @ [Clk_Prepare_Enable]\<rparr>)"
  by (simp add: clk_prepare_enable_def next_result_def emit_def)

lemma probe_detect_failure:
  assumes ok: "faults hw = []" and p: "reaches_detect p"
    and bad: "regs hw OV5647_REG_CHIPID_H \<noteq> 0x56 \<or> regs hw OV5647_REG_CHIPID_L \<noteq> 0x47"
  shows "fst (ov5647_probe p hw) = - ENODEV"
    and "filter is_i2c (trace (snd (ov5647_probe p hw))) =
           filter is_i2c (trace hw) @ [reg_write OV5647_SW_RESET 0x01]
           @ reg_read OV5647_REG_CHIPID_H
           @ (if regs hw OV5647_REG_CHIPID_H \<noteq> 0x56 then []
              else reg_read OV5647_REG_CHIPID_L)"
  using assms
  by (auto simp: ov5647_probe_def reaches_detect_def Let_def ov5647_init_controls_def
      ov5647_power_on_def ov5647_power_off_def clk_prepare_enable_ok detect_ok
      reset_gpio_set_def clk_disable_unprepare_def emit_def reg_write_def reg_read_def
      ENODEV_def split: gpio_lookup.splits)

text \<open>
  Claim C9. With succeeding transfers \<open>ov5647_detect\<close> first writes 1 to the
  software-reset register and then reads the identity registers: a high byte other than
  \<open>0x56\<close> ends it with \<open>-ENODEV\<close> after that read, a low byte other than \<open>0x47\<close> ends
  it with \<open>-ENODEV\<close> after the second read, and only when both match does it write 0
  to the reset register and return a value that is not negative. Whatever the transfers
  do, a result that is not negative means that both bytes matched. When a byte does not
  match, \<open>ov5647_probe\<close> fails and never registers the sub-device; when the platform
  lets it reach detection and the transfers succeed, it returns \<open>-ENODEV\<close> and the
  only I2C traffic of the attach is the reset write and the identity reads: no mode
  register is written.
\<close>

theorem detect_identity:
  "(faults sd = [] \<longrightarrow>
      (case ov5647_detect sd of
         (ret, s') \<Rightarrow>
           (regs sd OV5647_REG_CHIPID_H \<noteq> 0x56 \<longrightarrow>
              ret = - ENODEV \<and>
              trace s' = trace sd @ [reg_write OV5647_SW_RESET 0x01]
                         @ reg_read OV5647_REG_CHIPID_H) \<and>
           (regs sd OV5647_REG_CHIPID_H = 0x56 \<and> regs sd OV5647_REG_CHIPID_L \<noteq> 0x47 \<longrightarrow>
              ret = - ENODEV \<and>
              trace s' = trace sd @ [reg_write OV5647_SW_RESET 0x01]
                         @ reg_read OV5647_REG_CHIPID_H @ reg_read OV5647_REG_CHIPID_L) \<and>
           (regs sd OV5647_REG_CHIPID_H = 0x56 \<and> regs sd OV5647_REG_CHIPID_L = 0x47 \<longrightarrow>
              0 \<le> ret \<and> regs s' OV5647_SW_RESET = 0x00 \<and>
              trace s' = trace sd @ [reg_write OV5647_SW_RESET 0x01]
                         @ reg_read OV5647_REG_CHIPID_H @ reg_read OV5647_REG_CHIPID_L
                         @ [reg_write OV5647_SW_RESET 0x00]))) \<and>
   (0 \<le> fst (ov5647_detect sd) \<longrightarrow>
      regs sd OV5647_REG_CHIPID_H = 0x56 \<and> regs sd OV5647_REG_CHIPID_L = 0x47) \<and>
   (\<not> registered sd \<and>
    (regs sd OV5647_REG_CHIPID_H \<noteq> 0x56 \<or> regs sd OV5647_REG_CHIPID_L \<noteq> 0x47) \<longrightarrow>
      (case ov5647_probe p sd of
         (ret, s') \<Rightarrow>
           ret \<noteq> 0 \<and> \<not> registered s' \<and>
           (faults sd = [] \<and> reaches_detect p \<longrightarrow>
              ret = - ENODEV \<and>
              filter is_i2c (trace s') =
                filter is_i2c (trace sd) @ [reg_write OV5647_SW_RESET 0x01]
                @ reg_read OV5647_REG_CHIPID_H
                @ (if regs sd OV5647_REG_CHIPID_H \<noteq> 0x56 then []
                   else reg_read OV5647_REG_CHIPID_L))))"
proof (intro conjI impI)
  assume "faults sd = []"
  then show "case ov5647_detect sd of
         (ret, s') \<Rightarrow>
           (regs sd OV5647_REG_CHIPID_H \<noteq> 0x56 \<longrightarrow>
              ret = - ENODEV \<and>
              trace s' = trace sd @ [reg_write OV5647_SW_RESET 0x01]
                         @ reg_read OV5647_REG_CHIPID_H) \<and>
           (regs sd OV5647_REG_CHIPID_H = 0x56 \<and> regs sd OV5647_REG_CHIPID_L \<noteq> 0x47 \<longrightarrow>
              ret = - ENODEV \<and>
              trace s' = trace sd @ [reg_write OV5647_SW_RESET 0x01]
                         @ reg_read OV5647_REG_CHIPID_H @ reg_read OV5647_REG_CHIPID_L) \<and>
           (regs sd OV5647_REG_CHIPID_H = 0x56 \<and> regs sd OV5647_REG_CHIPID_L = 0x47 \<longrightarrow>
              0 \<le> ret \<and> regs s' OV5647_SW_RESET = 0x00 \<and>
              trace s' = trace sd @ [reg_write OV5647_SW_RESET 0x01]
                         @ reg_read OV5647_REG_CHIPID_H @ reg_read OV5647_REG_CHIPID_L
                         @ [reg_write OV5647_SW_RESET 0x00])"
    by (simp add: detect_ok)
next
  assume nn: "0 \<le> fst (ov5647_detect sd)"
  obtain r s' where d: "ov5647_detect sd = (r, s')" by (cases "ov5647_detect sd") auto
  then have "\<not> r < 0" using nn by simp
  then show "regs sd OV5647_REG_CHIPID_H = 0x56" "regs sd OV5647_REG_CHIPID_L = 0x47"
    using detect_gen(2)[OF d] by simp_all
next
  assume a: "\<not> registered sd \<and>
    (regs sd OV5647_REG_CHIPID_H \<noteq> 0x56 \<or> regs sd OV5647_REG_CHIPID_L \<noteq> 0x47)"
  obtain r s' where run: "ov5647_probe p sd = (r, s')" by (cases "ov5647_probe p sd") auto
  have g: "r \<noteq> 0 \<and> \<not> registered s'"
    using probe_mismatch[OF _ _ run] a by blast
  have e: "faults sd = [] \<and> reaches_detect p \<longrightarrow>
              r = - ENODEV \<and>
              filter is_i2c (trace s') =
                filter is_i2c (trace sd) @ [reg_write OV5647_SW_RESET 0x01]
                @ reg_read OV5647_REG_CHIPID_H
                @ (if regs sd OV5647_REG_CHIPID_H \<noteq> 0x56 then []
                   else reg_read OV5647_REG_CHIPID_L)"
    using probe_detect_failure[of sd p] a run by simp
  show "case ov5647_probe p sd of
         (ret, s') \<Rightarrow>
           ret \<noteq> 0 \<and> \<not> registered s' \<and>
           (faults sd = [] \<and> reaches_detect p \<longrightarrow>
              ret = - ENODEV \<and>
              filter is_i2c (trace s') =
                filter is_i2c (trace sd) @ [reg_write OV5647_SW_RESET 0x01]
                @ reg_read OV5647_REG_CHIPID_H
                @ (if regs sd OV5647_REG_CHIPID_H \<noteq> 0x56 then []
                   else reg_read OV5647_REG_CHIPID_L))"
    using g e by (simp add: run)
qed

text \<open>
  A chip answering \<open>0x55\<close> for the high byte is refused, by detection and by the
  attach; the sample sensor with the right identity is accepted.
\<close>

theorem detect_identity_witness:
  "faults sensor_wrong_id = [] \<and> \<not> registered sensor_wrong_id \<and> reaches_detect board \<and>
   regs sensor_wrong_id OV5647_REG_CHIPID_H \<noteq> 0x56 \<and>
   fst (ov5647_detect sensor_wrong_id) = - ENODEV \<and>
   fst (ov5647_probe board sensor_wrong_id) = - ENODEV \<and>
   \<not> registered (snd (ov5647_probe board sensor_wrong_id)) \<and>
   regs (sensor_off\<lparr>regs := (regs sensor_off)(0x300B := 0x46)\<rparr>) OV5647_REG_CHIPID_H = 0x56 \<and>
   regs (sensor_off\<lparr>regs := (regs sensor_off)(0x300B := 0x46)\<rparr>) OV5647_REG_CHIPID_L \<noteq> 0x47 \<and>
   fst (ov5647_detect (sensor_off\<lparr>regs := (regs sensor_off)(0x300B := 0x46)\<rparr>)) = - ENODEV \<and>
   faults sensor_off = [] \<and>
   regs sensor_off OV5647_REG_CHIPID_H = 0x56 \<and> regs sensor_off OV5647_REG_CHIPID_L = 0x47 \<and>
   0 \<le> fst (ov5647_detect sensor_off)"
proof -
  let ?low = "sensor_off\<lparr>regs := (regs sensor_off)(0x300B := 0x46)\<rparr>"
  have f: "faults sensor_wrong_id = []" "faults sensor_off = []" "faults ?low = []"
    by (simp_all add: sensor_wrong_id_def sensor_off_def)
  have nr: "\<not> registered sensor_wrong_id"
    by (simp add: registered_def sensor_wrong_id_def sensor_off_def)
  have b: "reaches_detect board"
    by (simp add: reaches_detect_def board_def ov5647_parse_dt_def)
  have bad: "regs sensor_wrong_id OV5647_REG_CHIPID_H \<noteq> 0x56"
    by (simp add: sensor_wrong_id_def sensor_off_def OV5647_REG_CHIPID_H_def)
  have low: "regs ?low OV5647_REG_CHIPID_H = 0x56" "regs ?low OV5647_REG_CHIPID_L \<noteq> 0x47"
    by (simp_all add: sensor_off_def OV5647_REG_CHIPID_H_def OV5647_REG_CHIPID_L_def)
  have good: "regs sensor_off OV5647_REG_CHIPID_H = 0x56"
    "regs sensor_off OV5647_REG_CHIPID_L = 0x47"
    by (simp_all add: sensor_off_def OV5647_REG_CHIPID_H_def OV5647_REG_CHIPID_L_def)
  have 1: "fst (ov5647_detect sensor_wrong_id) = - ENODEV \<and>
      fst (ov5647_probe board sensor_wrong_id) = - ENODEV \<and>
      \<not> registered (snd (ov5647_probe board sensor_wrong_id))"
    using detect_identity[of sensor_wrong_id board] f(1) nr b bad
    by (simp split: prod.splits)
  have 2: "fst (ov5647_detect ?low) = - ENODEV"
    using detect_identity[of ?low board] f(3) low
    by (simp split: prod.splits)
  have 3: "0 \<le> fst (ov5647_detect sensor_off)"
    using detect_identity[of sensor_off board] f(2) good
    by (simp split: prod.splits)
  show ?thesis using f nr b bad low good 1 2 3 by simp
qed

section \<open>Power: failures\<close>










lemmas eval_power = ov5647_sensor_power_def clk_prepare_enable_def next_result_def emit_def
  reset_gpio_set_def ov5647_write_array_def sensor_oe_enable_regs_def ov5647_write_def
  i2c_master_send_def sensor_receive_def clk_disable_unprepare_def sensor_init_def
  ov5647_read_def i2c_master_recv_def update_power_count_def sensor_off_def Let_def

text \<open>
  Claim C4 fails on the code. Powering off the sample sensor whose counter is already
  zero writes no register, but the counter becomes \<open>-1\<close>: \<open>WARN_ON\<close> fires and
  nothing saturates. The next power-on call then only brings the counter back to zero:
  it returns 0 and leaves the clock disabled.
\<close>

theorem release_at_zero_underflows:
  "ov5647_sensor_power sensor_off 0
     = (0, sensor_off\<lparr>power_count := - 1, trace := [Warn_On]\<rparr>) \<and>
   sint (power_count (snd (ov5647_sensor_power sensor_off 0))) = - 1 \<and>
   ov5647_sensor_power (snd (ov5647_sensor_power sensor_off 0)) 1
     = (0, sensor_off\<lparr>power_count := 0, trace := [Warn_On]\<rparr>) \<and>
   \<not> xclk (snd (ov5647_sensor_power (snd (ov5647_sensor_power sensor_off 0)) 1))"
  by (simp add: eval_power word_sless_alt)

section \<open>Power: balanced use\<close>

lemma regs_after_simps:
  "regs_after [] f = f"
  "regs_after (r # rs) f = regs_after rs (f(addr r := data r))"
  by (simp_all add: regs_after_def)

lemma write_array_loop_ok:
  "faults s = [] \<Longrightarrow>
     write_array_loop s rs =
       (0, s\<lparr>regs := regs_after rs (regs s),
             reg_ptr := (if rs = [] then reg_ptr s else addr (last rs)),
             trace := trace s @ reg_writes rs\<rparr>)"
proof (induction rs arbitrary: s)
  case Nil
  then show ?case by (simp add: regs_after_simps reg_writes_def)
next
  case (Cons r rs)
  let ?s1 = "s\<lparr>regs := (regs s)(addr r := data r), reg_ptr := addr r,
             trace := trace s @ [reg_write (addr r) (data r)]\<rparr>"
  have w: "ov5647_write s (addr r) (data r) = (3, ?s1)"
    using Cons.prems by (rule ov5647_write_ok)
  have f1: "faults ?s1 = []" using Cons.prems by simp
  have "write_array_loop s (r # rs) = write_array_loop ?s1 rs"
    using w by simp
  also have "\<dots> = (0, ?s1\<lparr>regs := regs_after rs (regs ?s1),
             reg_ptr := (if rs = [] then reg_ptr ?s1 else addr (last rs)),
             trace := trace ?s1 @ reg_writes rs\<rparr>)"
    by (rule Cons.IH[OF f1])
  also have "\<dots> = (0, s\<lparr>regs := regs_after (r # rs) (regs s),
             reg_ptr := (if r # rs = [] then reg_ptr s else addr (last (r # rs))),
             trace := trace s @ reg_writes (r # rs)\<rparr>)"
    by (simp add: regs_after_simps reg_writes_def)
  finally show ?case .
qed

lemma vc_value:
  "(ucast ((ucast (v AND NOT (push_bit 6 3)) :: s32) OR push_bit 6 0) :: u8) = v AND 0x3f"
proof -
  have n: "NOT (push_bit 6 3 :: u8) = 0x3f" by simp
  have u: "(ucast (ucast (w :: u8) :: s32) :: u8) = w" for w
    by (rule bit_word_eqI) (auto simp: bit_simps)
  show ?thesis unfolding n by (simp add: u)
qed

lemma set_virtual_channel_ok:
  "faults s = [] \<Longrightarrow>
     ov5647_set_virtual_channel s 0 =
       (3, s\<lparr>regs := (regs s)(OV5647_REG_MIPI_CTRL14 := regs s OV5647_REG_MIPI_CTRL14 AND 0x3f),
             reg_ptr := OV5647_REG_MIPI_CTRL14,
             trace := trace s @ reg_read OV5647_REG_MIPI_CTRL14
               @ [reg_write OV5647_REG_MIPI_CTRL14 (regs s OV5647_REG_MIPI_CTRL14 AND 0x3f)]\<rparr>)"
  using vc_value
  by (simp add: ov5647_set_virtual_channel_def ov5647_read_ok ov5647_write_ok Let_def)

lemma set_sw_standby_ok:
  "faults s = [] \<Longrightarrow>
     set_sw_standby s True =
       (3, s\<lparr>regs := (regs s)(OV5647_SW_STANDBY := regs s OV5647_SW_STANDBY AND NOT 0x01),
             reg_ptr := OV5647_SW_STANDBY,
             trace := trace s @ reg_read OV5647_SW_STANDBY
               @ [reg_write OV5647_SW_STANDBY (regs s OV5647_SW_STANDBY AND NOT 0x01)]\<rparr>)"
  by (simp add: set_sw_standby_def ov5647_read_ok ov5647_write_ok)

lemma table_640x480:
  "regs_after ov5647_640x480 f 0x0100 = 0x01" "regs_after ov5647_640x480 f 0x4814 = f 0x4814"
  by (simp_all add: regs_after_def ov5647_640x480_def)

lemma table_640x480_binned:
  "regs_after ov5647_640x480_binned f 0x0100 = 0x01"
  "regs_after ov5647_640x480_binned f 0x4814 = f 0x4814"
  by (simp_all add: regs_after_def ov5647_640x480_binned_def)

lemma table_1296x972:
  "regs_after ov5647_1296x972 f 0x0100 = 0x01" "regs_after ov5647_1296x972 f 0x4814 = f 0x4814"
  by (simp_all add: regs_after_def ov5647_1296x972_def)

lemma table_1280x960:
  "regs_after ov5647_1280x960 f 0x0100 = 0x01" "regs_after ov5647_1280x960 f 0x4814 = f 0x4814"
  by (simp_all add: regs_after_def ov5647_1280x960_def)

lemma table_1920x1080:
  "regs_after ov5647_1920x1080 f 0x0100 = 0x01" "regs_after ov5647_1920x1080 f 0x4814 = f 0x4814"
  by (simp_all add: regs_after_def ov5647_1920x1080_def)

lemma table_2592x1944:
  "regs_after ov5647_2592x1944 f 0x0100 = 0x01" "regs_after ov5647_2592x1944 f 0x4814 = f 0x4814"
  by (simp_all add: regs_after_def ov5647_2592x1944_def)

lemma mode_tables:
  assumes "m \<in> set ov5647_modes"
  shows "regs_after (reg_list m) f 0x0100 = 0x01"
    and "regs_after (reg_list m) f 0x4814 = f 0x4814"
    and "num_regs m = length (reg_list m)"
  using assms table_640x480 table_640x480_binned table_1296x972 table_1280x960
    table_1920x1080 table_2592x1944
  by (auto simp: ov5647_modes_def)


lemmas reg_names = OV5647_SW_STANDBY_def OV5647_REG_MIPI_CTRL00_def OV5647_REG_MIPI_CTRL14_def
  OV5647_REG_FRAME_OFF_NUMBER_def OV5640_REG_PAD_OUT_def

lemma sensor_init_ok:
  assumes f: "faults s = []" and m: "current_mode s < length ov5647_modes"
  shows "sensor_init s =
     (3, s\<lparr>regs := (regs_after (reg_list (ov5647_modes ! current_mode s)) (regs s))
                (OV5647_REG_MIPI_CTRL14 := regs s OV5647_REG_MIPI_CTRL14 AND 0x3f,
                 OV5647_REG_MIPI_CTRL00 := 0x25,
                 OV5647_REG_FRAME_OFF_NUMBER := 0x0f,
                 OV5640_REG_PAD_OUT := 0x01),
             reg_ptr := OV5640_REG_PAD_OUT,
             trace := trace s @ reg_read OV5647_SW_STANDBY
               @ reg_writes (reg_list (ov5647_modes ! current_mode s))
               @ reg_read OV5647_REG_MIPI_CTRL00
               @ reg_read OV5647_REG_MIPI_CTRL14
               @ [reg_write OV5647_REG_MIPI_CTRL14 (regs s OV5647_REG_MIPI_CTRL14 AND 0x3f)]
               @ reg_read OV5647_SW_STANDBY
               @ [reg_write OV5647_REG_MIPI_CTRL00 0x25,
                  reg_write OV5647_REG_FRAME_OFF_NUMBER 0x0f,
                  reg_write OV5640_REG_PAD_OUT 0x01]\<rparr>)"
proof -
  let ?m = "ov5647_modes ! current_mode s"
  have mem: "?m \<in> set ov5647_modes" using m by (rule nth_mem)
  note t = mode_tables[OF mem]
  have t1: "regs_after (reg_list ?m) g OV5647_SW_STANDBY = 0x01" for g
    using t(1) by (simp add: reg_names)
  have t2: "regs_after (reg_list ?m) g OV5647_REG_MIPI_CTRL14 = g OV5647_REG_MIPI_CTRL14" for g
    using t(2) by (simp add: reg_names)
  have d: "OV5647_SW_STANDBY \<noteq> OV5647_REG_MIPI_CTRL14" by (simp add: reg_names)
  show ?thesis
    using f d
    by (simp add: sensor_init_def Let_def ov5647_read_ok ov5647_write_array_def t(3)
        write_array_loop_ok set_virtual_channel_ok stream_off_ok t1 t2)
qed

lemma oe_regs:
  "regs_after sensor_oe_enable_regs g OV5647_REG_MIPI_CTRL14 = g OV5647_REG_MIPI_CTRL14"
  "regs_after sensor_oe_disable_regs g OV5647_SW_STANDBY = g OV5647_SW_STANDBY"
  by (simp_all add: regs_after_def sensor_oe_enable_regs_def sensor_oe_disable_regs_def
      reg_names)

lemma sensor_power_on_ok:
  assumes f: "faults sd = []" and m: "current_mode sd < length ov5647_modes"
    and pc: "power_count sd = 0" and on: "on \<noteq> 0"
  shows "\<exists>s'. ov5647_sensor_power sd on = (3, s') \<and> faults s' = [] \<and>
           current_mode s' = current_mode sd \<and> power_count s' = 1 \<and> xclk s' \<and>
           reset_gpio s' = (case reset_gpio sd of None \<Rightarrow> None | Some _ \<Rightarrow> Some False) \<and>
           regs s' OV5647_SW_STANDBY = 0x01 \<and>
           trace s' = trace sd @ power_on_sequence sd"
proof -
  obtain s1 where s1: "clk_prepare_enable sd = (0, s1)"
    "s1 = sd\<lparr>xclk := True, trace := trace sd @ [Clk_Prepare_Enable]\<rparr>"
    using clk_prepare_enable_ok[OF f] by simp
  let ?s2 = "reset_gpio_set False s1"
  have f2: "faults ?s2 = []" using s1(2) f by (simp add: reset_gpio_set_gen)
  obtain s3 where s3: "ov5647_write_array ?s2 sensor_oe_enable_regs
      (length sensor_oe_enable_regs) = (0, s3)"
    "s3 = ?s2\<lparr>regs := regs_after sensor_oe_enable_regs (regs ?s2),
             reg_ptr := (if sensor_oe_enable_regs = [] then reg_ptr ?s2
                         else addr (last sensor_oe_enable_regs)),
             trace := trace ?s2 @ reg_writes sensor_oe_enable_regs\<rparr>"
    using write_array_loop_ok[OF f2] by (simp add: ov5647_write_array_def)
  have f3: "faults s3 = []" using s3(2) f2 by simp
  have t2: "trace ?s2 = trace sd @ [Clk_Prepare_Enable]
      @ (case reset_gpio sd of None \<Rightarrow> [] | Some _ \<Rightarrow> [Gpiod_Set_Value False])"
    using s1(2) by (simp add: reset_gpio_set_def emit_def split: option.splits)
  have g2: "reset_gpio ?s2 = (case reset_gpio sd of None \<Rightarrow> None | Some _ \<Rightarrow> Some False)"
    "current_mode ?s2 = current_mode sd" "power_count ?s2 = 0" "xclk ?s2"
    "regs ?s2 = regs sd"
    using s1(2) pc by (simp_all add: reset_gpio_set_def emit_def split: option.splits)
  have m3: "current_mode s3 < length ov5647_modes" using s3(2) g2 m by simp
  note i = sensor_init_ok[OF f3 m3]
  obtain s4 where s4: "sensor_init s3 = (3, s4)" "faults s4 = []"
    "current_mode s4 = current_mode sd" "power_count s4 = 0" "xclk s4"
    "reset_gpio s4 = (case reset_gpio sd of None \<Rightarrow> None | Some _ \<Rightarrow> Some False)"
    "regs s4 OV5647_SW_STANDBY = regs_after (reg_list (ov5647_modes ! current_mode sd))
        (regs s3) OV5647_SW_STANDBY"
    "trace s4 = trace sd @ power_on_sequence sd"
    using i f3 s3(2) g2 t2 oe_regs(1)
    by (simp add: power_on_sequence_def reg_names)
  have st: "regs s4 OV5647_SW_STANDBY = 0x01"
    using s4(7) mode_tables(1)[OF nth_mem[OF m]] by (simp add: reg_names)
  have u: "update_power_count on s4 = s4\<lparr>power_count := 1\<rparr>"
    using s4(4) on by (simp add: update_power_count_def Let_def word_sless_alt)
  have "ov5647_sensor_power sd on = (3, s4\<lparr>power_count := 1\<rparr>)"
    using pc on s1(1) s3(1) s4(1) u by (simp add: ov5647_sensor_power_def Let_def)
  then show ?thesis using s4 st by simp
qed

lemma sensor_power_off_ok:
  assumes f: "faults sd = []" and pc: "power_count sd = 1"
    and st: "regs sd OV5647_SW_STANDBY = 0x01"
  shows "\<exists>s'. ov5647_sensor_power sd 0 = (3, s') \<and> faults s' = [] \<and>
           current_mode s' = current_mode sd \<and> power_count s' = 0 \<and> \<not> xclk s' \<and>
           reset_gpio s' = (case reset_gpio sd of None \<Rightarrow> None | Some _ \<Rightarrow> Some True) \<and>
           trace s' = trace sd @ power_off_sequence sd"
proof -
  obtain s1 where s1: "ov5647_write_array sd sensor_oe_disable_regs
      (length sensor_oe_disable_regs) = (0, s1)"
    "s1 = sd\<lparr>regs := regs_after sensor_oe_disable_regs (regs sd),
             reg_ptr := (if sensor_oe_disable_regs = [] then reg_ptr sd
                         else addr (last sensor_oe_disable_regs)),
             trace := trace sd @ reg_writes sensor_oe_disable_regs\<rparr>"
    using write_array_loop_ok[OF f] by (simp add: ov5647_write_array_def)
  have f1: "faults s1 = []" using s1(2) f by simp
  have r1: "regs s1 OV5647_SW_STANDBY = 0x01" using s1(2) st oe_regs(2) by simp
  obtain s2 where s2: "set_sw_standby s1 True = (3, s2)"
    "s2 = s1\<lparr>regs := (regs s1)(OV5647_SW_STANDBY := 0x00),
             reg_ptr := OV5647_SW_STANDBY,
             trace := trace s1 @ reg_read OV5647_SW_STANDBY
               @ [reg_write OV5647_SW_STANDBY 0x00]\<rparr>"
    using set_sw_standby_ok[OF f1] r1 by simp
  let ?s3 = "reset_gpio_set True (clk_disable_unprepare s2)"
  have g3: "faults ?s3 = []" "current_mode ?s3 = current_mode sd" "power_count ?s3 = 1"
    "\<not> xclk ?s3"
    "reset_gpio ?s3 = (case reset_gpio sd of None \<Rightarrow> None | Some _ \<Rightarrow> Some True)"
    "trace ?s3 = trace sd @ power_off_sequence sd"
    using s2(2) s1(2) f pc
    by (simp_all add: reset_gpio_set_def clk_disable_unprepare_def emit_def
        power_off_sequence_def split: option.splits)
  have u: "update_power_count 0 ?s3 = ?s3\<lparr>power_count := 0\<rparr>"
    using g3(3) by (simp add: update_power_count_def Let_def word_sless_alt)
  have "ov5647_sensor_power sd 0 = (3, ?s3\<lparr>power_count := 0\<rparr>)"
    using pc s1(1) s2(1) u by (simp add: ov5647_sensor_power_def Let_def)
  then show ?thesis using g3 by simp
qed


lemma count_word:
  assumes "n < 2 ^ 31"
  shows "sint (of_nat n :: s32) = int n"
    and "(of_nat n :: s32) = 0 \<longleftrightarrow> n = 0"
    and "(of_nat n :: s32) = 1 \<longleftrightarrow> n = 1"
proof -
  have lt: "n < 2 ^ 32" using assms by simp
  have u: "unat (of_nat n :: s32) = n" using lt by (simp add: unat_of_nat)
  have "- (2 ^ 31) \<le> int n" by (rule order_trans[of _ 0]) simp_all
  moreover have "int n < 2 ^ 31"
  proof -
    have "int n < int (2 ^ 31)" using assms by (simp only: of_nat_less_iff)
    then show ?thesis by simp
  qed
  ultimately have "signed_take_bit 31 (int n) = int n"
    by (rule signed_take_bit_int_eq_self)
  then show "sint (of_nat n :: s32) = int n" by (simp add: signed_of_nat)
  show "(of_nat n :: s32) = 0 \<longleftrightarrow> n = 0"
  proof
    assume "(of_nat n :: s32) = 0"
    then have "unat (of_nat n :: s32) = unat (0 :: s32)" by (rule arg_cong)
    then show "n = 0" using u by simp
  next
    assume "n = 0"
    then show "(of_nat n :: s32) = 0" by simp
  qed
  show "(of_nat n :: s32) = 1 \<longleftrightarrow> n = 1"
  proof
    assume "(of_nat n :: s32) = 1"
    then have "unat (of_nat n :: s32) = unat (1 :: s32)" by (rule arg_cong)
    then show "n = 1" using u by simp
  next
    assume "n = 1"
    then show "(of_nat n :: s32) = 1" by simp
  qed
qed

lemma update_power_count_quiet:
  assumes "\<not> power_count s + d <s 0"
  shows "(let s1 = s\<lparr>power_count := power_count s + d\<rparr>
          in if power_count s1 <s 0 then emit Warn_On s1 else s1)
         = s\<lparr>power_count := power_count s + d\<rparr>"
  using assms by (simp add: Let_def)

lemma acquire_again:
  assumes "power_count s = of_nat k" "1 \<le> k" "k + 1 < 2 ^ 31"
  shows "ov5647_sensor_power s 1 = (0, s\<lparr>power_count := of_nat (k + 1)\<rparr>)"
proof -
  have k: "k < 2 ^ 31" using assms(3) by simp
  have nz: "power_count s \<noteq> 0" using assms(1,2) count_word(2)[OF k] by simp
  have e: "power_count s + 1 = of_nat (k + 1)" using assms(1) by simp
  have "sint (of_nat (k + 1) :: s32) = int (k + 1)"
    using assms(3) by (rule count_word(1))
  then have nn: "\<not> power_count s + 1 <s 0"
    unfolding e by (simp add: word_sless_alt)
  have "update_power_count 1 s = (let s1 = s\<lparr>power_count := power_count s + 1\<rparr>
          in if power_count s1 <s 0 then emit Warn_On s1 else s1)"
    by (simp add: update_power_count_def)
  also have "\<dots> = s\<lparr>power_count := power_count s + 1\<rparr>"
    using nn by (rule update_power_count_quiet)
  finally have u: "update_power_count 1 s = s\<lparr>power_count := of_nat (k + 1)\<rparr>"
    by (simp only: e)
  have "ov5647_sensor_power s 1 = (0, update_power_count 1 s)"
    using nz by (simp add: ov5647_sensor_power_def)
  then show ?thesis by (simp only: u)
qed

lemma release_again:
  assumes "power_count s = of_nat k" "2 \<le> k" "k < 2 ^ 31"
  shows "ov5647_sensor_power s 0 = (0, s\<lparr>power_count := of_nat (k - 1)\<rparr>)"
proof -
  have n1: "power_count s \<noteq> 1" using assms(1,2) count_word(3)[OF assms(3)] by simp
  have k1: "k - 1 < 2 ^ 31" using assms(3) by simp
  have e: "power_count s + - 1 = of_nat (k - 1)" using assms(1,2) by simp
  have "sint (of_nat (k - 1) :: s32) = int (k - 1)"
    using k1 by (rule count_word(1))
  then have nn: "\<not> power_count s + - 1 <s 0"
    unfolding e by (simp add: word_sless_alt)
  have "update_power_count 0 s = (let s1 = s\<lparr>power_count := power_count s + - 1\<rparr>
          in if power_count s1 <s 0 then emit Warn_On s1 else s1)"
    by (simp add: update_power_count_def)
  also have "\<dots> = s\<lparr>power_count := power_count s + - 1\<rparr>"
    using nn by (rule update_power_count_quiet)
  finally have u: "update_power_count 0 s = s\<lparr>power_count := of_nat (k - 1)\<rparr>"
    by (simp only: e)
  have "ov5647_sensor_power s 0 = (0, update_power_count 0 s)"
    using n1 by (simp add: ov5647_sensor_power_def)
  then show ?thesis by (simp only: u)
qed

lemma run_power_simps:
  "run_power [] s = s"
  "run_power (on # ons) s = run_power ons (snd (ov5647_sensor_power s on))"
  "run_power (xs @ ys) s = run_power ys (run_power xs s)"
  by (simp_all add: run_power_def)

lemma run_acquires:
  "power_count s = of_nat k \<Longrightarrow> 1 \<le> k \<Longrightarrow> k + j < 2 ^ 31 \<Longrightarrow>
     run_power (replicate j 1) s = s\<lparr>power_count := of_nat (k + j)\<rparr>"
proof (induction j arbitrary: s k)
  case 0
  then show ?case by (simp add: run_power_simps)
next
  case (Suc j)
  have st: "ov5647_sensor_power s 1 = (0, s\<lparr>power_count := of_nat (k + 1)\<rparr>)"
    using Suc.prems by (intro acquire_again) simp_all
  have "run_power (replicate j 1) (s\<lparr>power_count := of_nat (k + 1)\<rparr>)
      = (s\<lparr>power_count := of_nat (k + 1)\<rparr>)\<lparr>power_count := of_nat (k + 1 + j)\<rparr>"
    using Suc.prems by (intro Suc.IH) simp_all
  then show ?case using st by (simp add: run_power_simps)
qed

lemma run_releases:
  "power_count s = of_nat k \<Longrightarrow> j < k \<Longrightarrow> k < 2 ^ 31 \<Longrightarrow>
     run_power (replicate j 0) s = s\<lparr>power_count := of_nat (k - j)\<rparr>"
proof (induction j arbitrary: s k)
  case 0
  then show ?case by (simp add: run_power_simps)
next
  case (Suc j)
  have st: "ov5647_sensor_power s 0 = (0, s\<lparr>power_count := of_nat (k - 1)\<rparr>)"
    using Suc.prems by (intro release_again) simp_all
  have "run_power (replicate j 0) (s\<lparr>power_count := of_nat (k - 1)\<rparr>)
      = (s\<lparr>power_count := of_nat (k - 1)\<rparr>)\<lparr>power_count := of_nat (k - 1 - j)\<rparr>"
    using Suc.prems by (intro Suc.IH) simp_all
  then show ?case using st by (simp add: run_power_simps)
qed

text \<open>
  Claim C5. Take a sensor that is off, with no fault scheduled, and let \<open>N\<close> power-on
  calls be followed by \<open>N\<close> power-off calls, for any \<open>N\<close> from 1 up to what the
  \<open>int\<close> counter can hold. After the first power-on call, and after every later one, the
  record of calls holds the complete power-on sequence once and nothing else; the later
  calls only move the counter. The power-off calls before the last one only move the
  counter as well. After the last one the record holds the power-on sequence followed by
  the power-off sequence, each once, the counter is zero and the clock is off.
\<close>

theorem acquire_release_balanced:
  assumes f: "faults sd = []" and m: "current_mode sd < OV5647_NUM_MODES"
    and pc: "power_count sd = 0" and n: "1 \<le> N" "N < 2 ^ 31"
  shows "(\<forall>k. 1 \<le> k \<and> k \<le> N \<longrightarrow>
            trace (run_power (replicate k 1) sd) = trace sd @ power_on_sequence sd \<and>
            power_count (run_power (replicate k 1) sd) = of_nat k \<and>
            xclk (run_power (replicate k 1) sd)) \<and>
         (\<forall>j. j < N \<longrightarrow>
            trace (run_power (replicate N 1 @ replicate j 0) sd)
              = trace sd @ power_on_sequence sd \<and>
            power_count (run_power (replicate N 1 @ replicate j 0) sd) = of_nat (N - j) \<and>
            xclk (run_power (replicate N 1 @ replicate j 0) sd)) \<and>
         trace (run_power (replicate N 1 @ replicate N 0) sd)
           = trace sd @ power_on_sequence sd @ power_off_sequence sd \<and>
         power_count (run_power (replicate N 1 @ replicate N 0) sd) = 0 \<and>
         \<not> xclk (run_power (replicate N 1 @ replicate N 0) sd)"
proof -
  have m': "current_mode sd < length ov5647_modes"
    using m by (simp add: OV5647_NUM_MODES_def)
  have one: "(1 :: s32) \<noteq> 0" by simp
  obtain s1 where s1: "ov5647_sensor_power sd 1 = (3, s1)" "faults s1 = []"
    "current_mode s1 = current_mode sd" "power_count s1 = 1" "xclk s1"
    "reset_gpio s1 = (case reset_gpio sd of None \<Rightarrow> None | Some _ \<Rightarrow> Some False)"
    "regs s1 OV5647_SW_STANDBY = 0x01" "trace s1 = trace sd @ power_on_sequence sd"
    using sensor_power_on_ok[OF f m' pc one] by blast
  have p1: "power_count s1 = of_nat 1" using s1(4) by simp
  have acq: "run_power (replicate k 1) sd = s1\<lparr>power_count := of_nat k\<rparr>"
    if k: "1 \<le> k" "k \<le> N" for k
  proof -
    obtain j where j: "k = Suc j" using k(1) by (cases k) auto
    have "run_power (replicate j 1) s1 = s1\<lparr>power_count := of_nat (1 + j)\<rparr>"
      using p1 k(2) n(2) j by (intro run_acquires) simp_all
    then show ?thesis using s1(1) j by (simp add: run_power_simps)
  qed
  let ?sN = "s1\<lparr>power_count := of_nat N\<rparr>"
  have pN: "power_count ?sN = of_nat N" by simp
  have rel: "run_power (replicate N 1 @ replicate j 0) sd = s1\<lparr>power_count := of_nat (N - j)\<rparr>"
    if j: "j < N" for j
  proof -
    have "run_power (replicate j 0) ?sN = ?sN\<lparr>power_count := of_nat (N - j)\<rparr>"
      using pN j n(2) by (rule run_releases)
    then show ?thesis using acq[OF n(1) order_refl] by (simp add: run_power_simps)
  qed
  obtain j where j: "N = Suc j" using n(1) by (cases N) auto
  let ?sl = "s1\<lparr>power_count := 1\<rparr>"
  have last: "run_power (replicate N 1 @ replicate j 0) sd = ?sl"
    using rel[of j] j by simp
  have fl: "faults ?sl = []" "power_count ?sl = 1" "regs ?sl OV5647_SW_STANDBY = 0x01"
    using s1 by simp_all
  obtain s2 where s2: "ov5647_sensor_power ?sl 0 = (3, s2)" "power_count s2 = 0" "\<not> xclk s2"
    "trace s2 = trace ?sl @ power_off_sequence ?sl"
    using sensor_power_off_ok[OF fl] by blast
  have seq: "power_off_sequence ?sl = power_off_sequence sd"
    using s1(6) by (simp add: power_off_sequence_def split: option.splits)
  have "replicate N (0 :: s32) = replicate j 0 @ [0]"
    using j by (simp add: replicate_append_same)
  then have fin: "run_power (replicate N 1 @ replicate N 0) sd = s2"
    using last s2(1) by (simp add: run_power_simps)
  show ?thesis
    using acq rel fin s1 s2 seq by simp
qed

text \<open>
  One and two users of the sample sensor.
\<close>

theorem acquire_release_balanced_witness:
  "faults sensor_off = [] \<and> current_mode sensor_off < OV5647_NUM_MODES \<and>
   power_count sensor_off = 0 \<and> (1 :: nat) \<le> 2 \<and> (2 :: nat) < 2 ^ 31 \<and>
   trace (run_power [1, 0] sensor_off)
     = power_on_sequence sensor_off @ power_off_sequence sensor_off \<and>
   trace (run_power [1, 1] sensor_off) = power_on_sequence sensor_off \<and>
   trace (run_power [1, 1, 0] sensor_off) = power_on_sequence sensor_off \<and>
   trace (run_power [1, 1, 0, 0] sensor_off)
     = power_on_sequence sensor_off @ power_off_sequence sensor_off \<and>
   power_count (run_power [1, 1, 0, 0] sensor_off) = 0"
proof -
  have h: "faults sensor_off = []" "current_mode sensor_off < OV5647_NUM_MODES"
    "power_count sensor_off = 0" "trace sensor_off = []"
    by (simp_all add: sensor_off_def OV5647_NUM_MODES_def ov5647_modes_def)
  have n: "(1 :: nat) \<le> 2" "(2 :: nat) < 2 ^ 31" "(1 :: nat) \<le> 1" "(1 :: nat) < 2 ^ 31"
    by simp_all
  have r: "replicate 2 (1 :: s32) = [1, 1]" "replicate 2 (0 :: s32) = [0, 0]"
    "replicate 1 (1 :: s32) = [1]" "replicate 1 (0 :: s32) = [0]"
    by (simp_all add: numeral_2_eq_2)
  note t2 = acquire_release_balanced[OF h(1) h(2) h(3) n(1) n(2)]
  note t1 = acquire_release_balanced[OF h(1) h(2) h(3) n(3) n(4)]
  have a: "trace (run_power [1, 0] sensor_off)
      = power_on_sequence sensor_off @ power_off_sequence sensor_off"
    using t1 r h(4) by simp
  have b: "trace (run_power [1, 1] sensor_off) = power_on_sequence sensor_off"
  proof -
    from t2 have "\<forall>k. 1 \<le> k \<and> k \<le> 2 \<longrightarrow>
            trace (run_power (replicate k 1) sensor_off)
              = trace sensor_off @ power_on_sequence sensor_off \<and>
            power_count (run_power (replicate k 1) sensor_off) = of_nat k \<and>
            xclk (run_power (replicate k 1) sensor_off)"
      by (rule conjunct1)
    then have "trace (run_power (replicate 2 1) sensor_off)
              = trace sensor_off @ power_on_sequence sensor_off"
      by simp
    then show ?thesis using r h(4) by simp
  qed
  have c: "trace (run_power [1, 1, 0] sensor_off) = power_on_sequence sensor_off"
  proof -
    from t2 have "\<forall>j. j < 2 \<longrightarrow>
            trace (run_power (replicate 2 1 @ replicate j 0) sensor_off)
              = trace sensor_off @ power_on_sequence sensor_off \<and>
            power_count (run_power (replicate 2 1 @ replicate j 0) sensor_off)
              = of_nat (2 - j) \<and>
            xclk (run_power (replicate 2 1 @ replicate j 0) sensor_off)"
      by (rule conjunct1[OF conjunct2])
    from this[rule_format, of 1]
    have "trace (run_power (replicate 2 1 @ replicate 1 0) sensor_off)
              = trace sensor_off @ power_on_sequence sensor_off"
      by simp
    then show ?thesis using r h(4) by simp
  qed
  have d: "trace (run_power [1, 1, 0, 0] sensor_off)
     = power_on_sequence sensor_off @ power_off_sequence sensor_off"
    "power_count (run_power [1, 1, 0, 0] sensor_off) = 0"
    using t2 r h(4) by simp_all
  show ?thesis using h n a b c d by simp
qed

section \<open>Power: a failed first power-on\<close>






end
